theory Spec2Isabelle
  imports Complex_Main
begin

section \<open>Readmission prediction from clinical notes: a model of lib.py\<close>

text \<open>
  The development follows \<^verbatim>\<open>src/lib.py\<close>: the word2vec pipeline
  (\<^verbatim>\<open>W2VEmbedAggregate\<close>, \<^verbatim>\<open>MIMICWord2VecReadmissionPredictor\<close>) and the
  BERT pipeline (\<^verbatim>\<open>EncodedDataset\<close>, \<^verbatim>\<open>MIMICBERTReadmissionPredictor\<close>).
  Python exceptions are values of the type \<open>error\<close>; a function that can raise returns
  \<open>error + 'a\<close>, with \<open>Inl\<close> for the exception that leaves the function.
  Floating-point numbers are modelled by the reals, so a statement about a mean or a
  quotient is a statement about the exact value the floating-point result approximates.
  Library objects the code only calls (the gensim vocabulary, the BERT tokenizer and
  network, the scikit-learn grid search, the metrics) are parameters of the model.
\<close>

subsection \<open>Exceptions and dictionaries\<close>

datatype error =
    KeyError | IndexError | ValueError | TypeError | AttributeError
  | RuntimeError | ZeroDivisionError | RuntimeWarning

text \<open>
  A Python \<^verbatim>\<open>dict\<close> keeps its keys in insertion order; an assignment to a key that
  is present keeps the key's position. It is an association list with distinct keys,
  read with \<open>map_of\<close>.
\<close>

type_synonym ('k, 'v) dict = "('k \<times> 'v) list"

fun dict_set :: "('k, 'v) dict \<Rightarrow> 'k \<Rightarrow> 'v \<Rightarrow> ('k, 'v) dict" where
  "dict_set [] k v = [(k, v)]"
| "dict_set ((k', v') # m) k v =
     (if k' = k then (k', v) # m else (k', v') # dict_set m k v)"

definition dict_getitem :: "('k, 'v) dict \<Rightarrow> 'k \<Rightarrow> error + 'v" where
  "dict_getitem m k = (case map_of m k of None \<Rightarrow> Inl KeyError | Some v \<Rightarrow> Inr v)"

subsection \<open>numpy arrays of rank one and two\<close>

type_synonym vec = "real list"
type_synonym matrix = "real list list"

text \<open>
  Reductions along axis 0 of a \<open>k \<times> d\<close> array given by its \<open>k\<close> rows. numpy adds (or
  compares) the rows one after the other. \<^verbatim>\<open>np.max\<close> and \<^verbatim>\<open>np.min\<close> of an array
  with no row raise ValueError.
\<close>

definition np_sum0 :: "vec \<Rightarrow> matrix \<Rightarrow> vec" where
  "np_sum0 r rs = foldl (map2 (+)) r rs"

definition np_mean0 :: "vec \<Rightarrow> matrix \<Rightarrow> vec" where
  "np_mean0 r rs = map (\<lambda>s. s / real (Suc (length rs))) (np_sum0 r rs)"

definition np_max0 :: "vec \<Rightarrow> matrix \<Rightarrow> vec" where
  "np_max0 r rs = foldl (map2 max) r rs"

definition np_min0 :: "vec \<Rightarrow> matrix \<Rightarrow> vec" where
  "np_min0 r rs = foldl (map2 min) r rs"

text \<open>
  \<^verbatim>\<open>X[i,:] = v\<close> for a row of width \<open>w\<close>: a vector of length \<open>w\<close> is stored as it is, a
  vector of length one is broadcast, any other length raises ValueError.
\<close>

definition assign_row :: "nat \<Rightarrow> vec \<Rightarrow> error + vec" where
  "assign_row w v =
     (if length v = w then Inr v
      else if length v = 1 then Inr (replicate w (hd v))
      else Inl ValueError)"

text \<open>
  \<^verbatim>\<open>np.array(rows).reshape((k, d))\<close> for a list of \<open>k\<close> vectors: it succeeds when the
  rows hold \<open>k * d\<close> numbers, here when every row has length \<open>d\<close>.
\<close>

definition reshape_rows :: "nat \<Rightarrow> matrix \<Rightarrow> error + matrix" where
  "reshape_rows d rows =
     (if list_all (\<lambda>r. length r = d) rows then Inr rows else Inl ValueError)"

subsection \<open>\<^verbatim>\<open>W2VEmbedAggregate\<close>\<close>

text \<open>
  The trained embedding's \<^verbatim>\<open>wv\<close>: its \<^verbatim>\<open>vector_size\<close> and its vocabulary.
  \<^verbatim>\<open>word_vectors[word]\<close> raises KeyError for a word that is not in the vocabulary.
\<close>

record keyed_vectors =
  vector_size :: nat
  vocab :: "(string, vec) dict"

text \<open>
  The aggregate's attributes: the hyperparameters that \<^verbatim>\<open>set_params\<close> stored in
  \<^verbatim>\<open>__dict__\<close>, the embedding once \<^verbatim>\<open>fit\<close> has run, and the matrix that
  \<^verbatim>\<open>transform\<close> caches. (\<^verbatim>\<open>patient_ids\<close> is stored by \<^verbatim>\<open>__init__\<close> and never read.)
\<close>

record w2v_embed_aggregate =
  attrs :: "(string, real) dict"
  embedding :: "keyed_vectors option"
  note_level_aggregations :: "matrix option"

definition arg_names :: "string list" where
  "arg_names = [''sg'', ''size'', ''window'', ''min_count'', ''alpha'', ''iter'', ''workers'']"

definition embed_aggregate_init :: "w2v_embed_aggregate" where
  "embed_aggregate_init = \<lparr>attrs = [], embedding = None, note_level_aggregations = None\<rparr>"

text \<open>\<^verbatim>\<open>set_params(**kwargs)\<close> keeps the keyword arguments named in \<^verbatim>\<open>arg_names\<close>.\<close>

definition set_params :: "w2v_embed_aggregate \<Rightarrow> (string \<times> real) list \<Rightarrow> w2v_embed_aggregate" where
  "set_params self kwargs =
     self\<lparr>attrs := fold (\<lambda>(k, v) m. dict_set m k v)
                      (filter (\<lambda>(k, v). k \<in> set arg_names) kwargs) (attrs self)\<rparr>"

text \<open>
  \<^verbatim>\<open>fit(text)\<close> passes to \<^verbatim>\<open>Word2Vec\<close> the attributes named in \<^verbatim>\<open>arg_names\<close> and
  nothing else. The training itself is the parameter \<open>word2vec\<close>.
\<close>

definition w2v_kwargs :: "w2v_embed_aggregate \<Rightarrow> (string \<times> real) list" where
  "w2v_kwargs self = filter (\<lambda>(k, v). k \<in> set arg_names) (attrs self)"

definition fit ::
  "(string list list \<Rightarrow> (string \<times> real) list \<Rightarrow> keyed_vectors) \<Rightarrow> w2v_embed_aggregate
   \<Rightarrow> string list list \<Rightarrow> w2v_embed_aggregate" where
  "fit word2vec self text = self\<lparr>embedding := Some (word2vec text (w2v_kwargs self))\<rparr>"

text \<open>The lambda \<^verbatim>\<open>_concat_aggreg\<close>: mean, max and min along axis 0, concatenated.\<close>

definition concat_aggreg :: "matrix \<Rightarrow> error + vec" where
  "concat_aggreg arr =
     (case arr of
        [] \<Rightarrow> Inl ValueError
      | r # rs \<Rightarrow> Inr (np_mean0 r rs @ np_max0 r rs @ np_min0 r rs))"

text \<open>
  The inner loop over the words of one note: an unknown word's KeyError is caught and
  the word is skipped; any other exception would leave the loop.
\<close>

fun note_list_of :: "keyed_vectors \<Rightarrow> string list \<Rightarrow> error + matrix" where
  "note_list_of wv [] = Inr []"
| "note_list_of wv (word # ws) =
     (case dict_getitem (vocab wv) word of
        Inl e \<Rightarrow> (if e = KeyError then note_list_of wv ws else Inl e)
      | Inr v \<Rightarrow>
          (case note_list_of wv ws of Inl e \<Rightarrow> Inl e | Inr vs \<Rightarrow> Inr (v # vs)))"

text \<open>The body of the loop over the notes: the row \<^verbatim>\<open>X[i,:]\<close> of one note.\<close>

definition note_row :: "keyed_vectors \<Rightarrow> string list \<Rightarrow> error + vec" where
  "note_row wv note =
     (let dim = vector_size wv in
      case note_list_of wv note of
        Inl e \<Rightarrow> Inl e
      | Inr note_list \<Rightarrow>
          if length note_list = 0 then assign_row (dim * 3) (replicate (dim * 3) 0)
          else
            (case reshape_rows dim note_list of
               Inl e \<Rightarrow> Inl e
             | Inr note_array \<Rightarrow>
                 (case concat_aggreg note_array of
                    Inl e \<Rightarrow> Inl e
                  | Inr v \<Rightarrow> assign_row (dim * 3) v)))"

fun note_rows :: "keyed_vectors \<Rightarrow> string list list \<Rightarrow> error + matrix" where
  "note_rows wv [] = Inr []"
| "note_rows wv (note # text) =
     (case note_row wv note of
        Inl e \<Rightarrow> Inl e
      | Inr row \<Rightarrow>
          (case note_rows wv text of Inl e \<Rightarrow> Inl e | Inr X \<Rightarrow> Inr (row # X)))"

text \<open>
  \<^verbatim>\<open>transform(self, text, assign_to_attr)\<close> returns the matrix and the object, whose
  attribute \<^verbatim>\<open>note_level_aggregations\<close> is set when \<^verbatim>\<open>assign_to_attr\<close> holds. Before
  \<^verbatim>\<open>fit\<close> the attribute \<^verbatim>\<open>embedding\<close> does not exist.
\<close>

definition transform ::
  "w2v_embed_aggregate \<Rightarrow> string list list \<Rightarrow> bool \<Rightarrow> error + (matrix \<times> w2v_embed_aggregate)"
where
  "transform self text assign_to_attr =
     (case embedding self of
        None \<Rightarrow> Inl AttributeError
      | Some word_vectors \<Rightarrow>
          (case note_rows word_vectors text of
             Inl e \<Rightarrow> Inl e
           | Inr X \<Rightarrow>
               Inr (X, if assign_to_attr then self\<lparr>note_level_aggregations := Some X\<rparr>
                       else self)))"

text \<open>
  What the specification calls the resolved token vectors of a note: the vectors of the
  words the vocabulary knows, in the note's order.
\<close>

definition resolved :: "keyed_vectors \<Rightarrow> string list \<Rightarrow> matrix" where
  "resolved wv note = List.map_filter (map_of (vocab wv)) note"

text \<open>gensim keeps one vector of length \<^verbatim>\<open>vector_size\<close> for every word.\<close>

definition wf_vectors :: "keyed_vectors \<Rightarrow> bool" where
  "wf_vectors wv = list_all (\<lambda>(w, v). length v = vector_size wv) (vocab wv)"

text \<open>
  The feature vector of a note as the specification words it: the zero vector of
  dimension \<open>3 * d\<close> when no token resolves, otherwise the elementwise mean, the
  elementwise maximum and the elementwise minimum of the resolved vectors, concatenated
  in that order.
\<close>

definition feature_vector_spec :: "nat \<Rightarrow> matrix \<Rightarrow> vec" where
  "feature_vector_spec d vs =
     (if vs = [] then replicate (3 * d) 0
      else map (\<lambda>j. (\<Sum>v\<leftarrow>vs. v ! j) / real (length vs)) [0..<d]
         @ map (\<lambda>j. Max ((\<lambda>v. v ! j) ` set vs)) [0..<d]
         @ map (\<lambda>j. Min ((\<lambda>v. v ! j) ` set vs)) [0..<d])"

subsection \<open>\<^verbatim>\<open>MIMICWord2VecReadmissionPredictor\<close>\<close>

text \<open>
  The attributes of the predictor. Those that \<^verbatim>\<open>__init__\<close> does not set (the
  loaded training and test data and \<^verbatim>\<open>w2v_agg_model\<close>) are \<open>None\<close> until a method
  assigns them; reading one that is not set raises AttributeError. A chunk size is \<open>None\<close> or an
  integer (pandas takes an integer-valued float such as \<^verbatim>\<open>1e5\<close> for the integer).
\<close>

record 'p w2v_predictor =
  txtvar :: string
  st_aug :: bool
  seed :: int
  train_chunksize :: "int option"
  test_chunksize :: "int option"
  db :: bool
  train_patient_ids :: "'p list option"
  train_text :: "string list list option"
  train_labels :: "int list option"
  gridsearch_labels :: "int list option"
  test_patient_ids :: "'p list option"
  test_text :: "string list list option"
  test_labels :: "int list option"
  w2v_agg_model :: "w2v_embed_aggregate option"

definition predictor_init ::
  "string \<Rightarrow> bool \<Rightarrow> int \<Rightarrow> int option \<Rightarrow> int option \<Rightarrow> bool \<Rightarrow> 'p w2v_predictor" where
  "predictor_init txtvar' st_aug' seed' train_chunksize' test_chunksize' db' =
     \<lparr>txtvar = txtvar', st_aug = st_aug', seed = seed', train_chunksize = train_chunksize',
      test_chunksize = test_chunksize', db = db', train_patient_ids = None,
      train_text = None, train_labels = None, gridsearch_labels = None,
      test_patient_ids = None, test_text = None, test_labels = None,
      w2v_agg_model = None\<rparr>"

subsubsection \<open>\<^verbatim>\<open>_load_data\<close>\<close>

text \<open>
  The two files as \<^verbatim>\<open>read_csv\<close> parses them. A row of the corpus has the index
  \<^verbatim>\<open>SUBJECT_ID\<close>, the admission, the text column \<^verbatim>\<open>self.txtvar\<close> (here \<open>TXT\<close>) and,
  with \<^verbatim>\<open>st_aug\<close>, the semantic types; a missing cell (NaN) is \<open>None\<close>. The label table
  is indexed by the patient and has the column \<^verbatim>\<open>READM\<close>. Reading a file that does
  not exist or does not parse raises in \<^verbatim>\<open>read_csv\<close>; the model starts from files that
  were read.
\<close>

record 'p corpus_row =
  SUBJECT_ID :: 'p
  HADM_ID :: string
  TXT :: "string option"
  SEMTYPES :: "string option"

type_synonym 'p readm_table = "('p \<times> int) list"

text \<open>
  With a chunk size, \<^verbatim>\<open>read_csv\<close> returns a reader that yields the rows in frames of
  that many rows, and raises ValueError for a chunk size below 1. With
  \<^verbatim>\<open>chunksize=None\<close> it returns one data frame, and iterating over a data frame
  yields its column labels.
\<close>

datatype 'p csv_reader = DataFrame "string list" | TextFileReader "'p corpus_row list list"

definition chunks_of :: "nat \<Rightarrow> 'a list \<Rightarrow> 'a list list" where
  "chunks_of n xs = map (\<lambda>i. take n (drop (i * n) xs)) [0..<(length xs + n - 1) div n]"

definition read_csv_corpus ::
  "'p w2v_predictor \<Rightarrow> 'p corpus_row list \<Rightarrow> int option \<Rightarrow> error + 'p csv_reader" where
  "read_csv_corpus self corpus_file chunksize =
     (case chunksize of
        None \<Rightarrow>
          Inr (DataFrame ([''HADM_ID'', txtvar self] @ (if st_aug self then [''SEMTYPES''] else [])))
      | Some n \<Rightarrow>
          if n < 1 then Inl ValueError
          else Inr (TextFileReader (chunks_of (nat n) corpus_file)))"

definition fillna :: "string option \<Rightarrow> string" where
  "fillna cell = (case cell of None \<Rightarrow> [] | Some s \<Rightarrow> s)"

text \<open>
  The body of the loop for one frame: keep the rows whose patient is in the index of
  the label table, collect their patients, fill the missing text, append the semantic
  types with \<^verbatim>\<open>st_aug\<close>, tokenize. \<^verbatim>\<open>word_tokenize\<close> is a parameter.
\<close>

definition process_chunk ::
  "'p w2v_predictor \<Rightarrow> (string \<Rightarrow> string list) \<Rightarrow> 'p readm_table \<Rightarrow> 'p corpus_row list
   \<Rightarrow> 'p list \<times> string list list" where
  "process_chunk self word_tokenize readm_df chunk =
     (let chunk = filter (\<lambda>r. SUBJECT_ID r \<in> set (map fst readm_df)) chunk;
          notes = map (\<lambda>r. if st_aug self then fillna (TXT r) @ fillna (SEMTYPES r)
                            else fillna (TXT r)) chunk
      in (map SUBJECT_ID chunk, map word_tokenize notes))"

text \<open>The loop over the frames; in debug mode (\<^verbatim>\<open>db\<close>) it stops after the first.\<close>

fun read_chunks ::
  "'p w2v_predictor \<Rightarrow> (string \<Rightarrow> string list) \<Rightarrow> 'p readm_table \<Rightarrow> 'p list
   \<Rightarrow> string list list \<Rightarrow> 'p corpus_row list list \<Rightarrow> 'p list \<times> string list list" where
  "read_chunks self word_tokenize readm_df patient_ids text [] = (patient_ids, text)"
| "read_chunks self word_tokenize readm_df patient_ids text (chunk # chunks) =
     (case process_chunk self word_tokenize readm_df chunk of
        (ids, notes) \<Rightarrow>
          if db self then (patient_ids @ ids, text @ notes)
          else read_chunks self word_tokenize readm_df (patient_ids @ ids) (text @ notes) chunks)"

text \<open>
  \<^verbatim>\<open>for chunk in corpus_df\<close>. A column label is a string: \<^verbatim>\<open>chunk.index\<close> is then the
  method \<^verbatim>\<open>str.index\<close>, which has no attribute \<^verbatim>\<open>isin\<close>.
\<close>

definition iterate_corpus ::
  "'p w2v_predictor \<Rightarrow> (string \<Rightarrow> string list) \<Rightarrow> 'p readm_table \<Rightarrow> 'p csv_reader
   \<Rightarrow> error + ('p list \<times> string list list)" where
  "iterate_corpus self word_tokenize readm_df corpus_df =
     (case corpus_df of
        DataFrame columns \<Rightarrow> (if columns = [] then Inr ([], []) else Inl AttributeError)
      | TextFileReader chunks \<Rightarrow> Inr (read_chunks self word_tokenize readm_df [] [] chunks))"

text \<open>\<^verbatim>\<open>xs.index(x)\<close>: the first position of \<open>x\<close>, ValueError when it is absent.\<close>

definition list_index :: "'a list \<Rightarrow> 'a \<Rightarrow> error + nat" where
  "list_index xs x =
     (if x \<in> set xs then Inr (length (takeWhile (\<lambda>y. y \<noteq> x) xs)) else Inl ValueError)"

text \<open>The loop that orders the labels by the first occurrences of the patients.\<close>

fun ordered_labels :: "'p list \<Rightarrow> int list \<Rightarrow> 'p list \<Rightarrow> error + int list" where
  "ordered_labels index input_labels [] = Inr []"
| "ordered_labels index input_labels (p_id # unique_id_list) =
     (case list_index index p_id of
        Inl e \<Rightarrow> Inl e
      | Inr i \<Rightarrow>
          if i < length input_labels then
            (case ordered_labels index input_labels unique_id_list of
               Inl e \<Rightarrow> Inl e
             | Inr labels \<Rightarrow> Inr (input_labels ! i # labels))
          else Inl IndexError)"

text \<open>The loop for the grid search's labels, one per note; a KeyError is skipped.\<close>

fun gridsearch_labels_loop :: "('p, int) dict \<Rightarrow> 'p list \<Rightarrow> error + int list" where
  "gridsearch_labels_loop readm_ordering_map [] = Inr []"
| "gridsearch_labels_loop readm_ordering_map (p_id # patient_ids) =
     (case dict_getitem readm_ordering_map p_id of
        Inl e \<Rightarrow>
          (if e = KeyError then gridsearch_labels_loop readm_ordering_map patient_ids
           else Inl e)
      | Inr label \<Rightarrow>
          (case gridsearch_labels_loop readm_ordering_map patient_ids of
             Inl e \<Rightarrow> Inl e
           | Inr ls \<Rightarrow> Inr (label # ls)))"

text \<open>
  The values that \<^verbatim>\<open>_load_data\<close> hands to \<^verbatim>\<open>tuple\<close>, and the items they yield when
  iterated. The built-in \<^verbatim>\<open>tuple\<close> takes at most one argument, an iterable; a call with
  two or more positional arguments raises TypeError.
\<close>

datatype 'p pyval =
    IdArray "'p list" | TextList "string list list" | LabelArray "int list"
  | Id 'p | Label int | Tokens "string list" | Str string

definition py_items :: "'p pyval \<Rightarrow> error + 'p pyval list" where
  "py_items x =
     (case x of
        IdArray ps \<Rightarrow> Inr (map Id ps)
      | TextList t \<Rightarrow> Inr (map Tokens t)
      | LabelArray ls \<Rightarrow> Inr (map Label ls)
      | Tokens ws \<Rightarrow> Inr (map Str ws)
      | Str cs \<Rightarrow> Inr (map (\<lambda>c. Str [c]) cs)
      | Id p \<Rightarrow> Inl TypeError
      | Label l \<Rightarrow> Inl TypeError)"

definition py_tuple :: "'p pyval list \<Rightarrow> error + 'p pyval list" where
  "py_tuple args =
     (case args of [] \<Rightarrow> Inr [] | [x] \<Rightarrow> py_items x | x # y # zs \<Rightarrow> Inl TypeError)"

text \<open>\<^verbatim>\<open>list(dict.fromkeys(patient_ids))\<close>: the patients in the order of first occurrence.\<close>

definition unique_ids :: "'p list \<Rightarrow> 'p list" where
  "unique_ids patient_ids = map fst (fold (\<lambda>k m. dict_set m k ()) patient_ids [])"

definition load_data ::
  "'p w2v_predictor \<Rightarrow> (string \<Rightarrow> string list) \<Rightarrow> 'p corpus_row list \<Rightarrow> 'p readm_table
   \<Rightarrow> int option \<Rightarrow> bool \<Rightarrow> error + 'p pyval list" where
  "load_data self word_tokenize corpus_file readm_file chunksize adapt_for_gridsearch =
     (case read_csv_corpus self corpus_file chunksize of
        Inl e \<Rightarrow> Inl e
      | Inr corpus_df \<Rightarrow>
     (case iterate_corpus self word_tokenize readm_file corpus_df of
        Inl e \<Rightarrow> Inl e
      | Inr (patient_ids, text) \<Rightarrow>
     (let readm_df = filter (\<lambda>(p, l). p \<in> set patient_ids) readm_file;
          input_labels = map snd readm_df;
          readm_ordering_map =
            fold (\<lambda>(p_id, label) m. dict_set m p_id label)
              (zip (map fst readm_df) input_labels) []
      in
      case ordered_labels (map fst readm_df) input_labels (unique_ids patient_ids) of
        Inl e \<Rightarrow> Inl e
      | Inr labels \<Rightarrow>
          if adapt_for_gridsearch then
            (case gridsearch_labels_loop readm_ordering_map patient_ids of
               Inl e \<Rightarrow> Inl e
             | Inr gs_labels \<Rightarrow>
                 py_tuple [IdArray patient_ids, TextList text, LabelArray labels,
                           LabelArray gs_labels])
          else py_tuple [IdArray patient_ids, TextList text, LabelArray labels])))"

text \<open>
  \<^verbatim>\<open>_load_train_data\<close> unpacks the result into four attributes and
  \<^verbatim>\<open>_load_test_data\<close>, which reads with the chunk size \<^verbatim>\<open>1e3\<close>, into three; unpacking
  a tuple of another length raises ValueError.
\<close>

definition load_train_data ::
  "'p w2v_predictor \<Rightarrow> (string \<Rightarrow> string list) \<Rightarrow> 'p corpus_row list \<Rightarrow> 'p readm_table
   \<Rightarrow> int option \<Rightarrow> bool \<Rightarrow> error + 'p w2v_predictor" where
  "load_train_data self word_tokenize corpus_file readm_file chunksize adapt_for_gridsearch =
     (case load_data self word_tokenize corpus_file readm_file chunksize adapt_for_gridsearch of
        Inl e \<Rightarrow> Inl e
      | Inr ret \<Rightarrow>
          (case ret of
             [IdArray a, TextList b, LabelArray c, LabelArray d] \<Rightarrow>
               Inr (self\<lparr>train_patient_ids := Some a, train_text := Some b,
                         train_labels := Some c, gridsearch_labels := Some d\<rparr>)
           | _ \<Rightarrow> Inl ValueError))"

definition load_test_data ::
  "'p w2v_predictor \<Rightarrow> (string \<Rightarrow> string list) \<Rightarrow> 'p corpus_row list \<Rightarrow> 'p readm_table
   \<Rightarrow> error + 'p w2v_predictor" where
  "load_test_data self word_tokenize corpus_file readm_file =
     (case load_data self word_tokenize corpus_file readm_file (Some 1000) False of
        Inl e \<Rightarrow> Inl e
      | Inr ret \<Rightarrow>
          (case ret of
             [IdArray a, TextList b, LabelArray c] \<Rightarrow>
               Inr (self\<lparr>test_patient_ids := Some a, test_text := Some b,
                         test_labels := Some c\<rparr>)
           | _ \<Rightarrow> Inl ValueError))"

subsubsection \<open>\<^verbatim>\<open>choose_params\<close>\<close>

text \<open>
  The grid of the first search. The cross-validated search itself
  (\<^verbatim>\<open>GridSearchCV(...).fit\<close>) is the parameter \<open>grid_fit\<close>: it receives the seed of the
  classifier, the seed of the fold splitter, the grid, \<^verbatim>\<open>n_jobs\<close>, the threading flag,
  the notes and their labels, and returns the best aggregate. (The best classifier,
  \<^verbatim>\<open>self.clf\<close>, is left out of the model.)
\<close>

definition lr_grid :: "real list" where
  "lr_grid = [1 / 10 ^ 4, 1 / 10 ^ 3, 1 / 10 ^ 2]"

definition param_grid :: "(string \<times> real list) list" where
  "param_grid =
     [(''embed_agg__sg'', [1, 0]), (''embed_agg__size'', [100, 200]),
      (''embed_agg__window'', [5, 7, 9]), (''embed_agg__alpha'', lr_grid),
      (''clf__alpha'', lr_grid)]"

type_synonym grid_search =
  "int \<Rightarrow> int \<Rightarrow> (string \<times> real list) list \<Rightarrow> int \<Rightarrow> bool \<Rightarrow> string list list \<Rightarrow> int list
   \<Rightarrow> error + w2v_embed_aggregate"

definition choose_params ::
  "'p w2v_predictor \<Rightarrow> (string \<Rightarrow> string list) \<Rightarrow> grid_search \<Rightarrow> 'p corpus_row list
   \<Rightarrow> 'p readm_table \<Rightarrow> int \<Rightarrow> bool \<Rightarrow> error + 'p w2v_predictor" where
  "choose_params self word_tokenize grid_fit corpus_file readm_file n_jobs use_multithreading =
     (case load_train_data self word_tokenize corpus_file readm_file (train_chunksize self) True of
        Inl e \<Rightarrow> Inl e
      | Inr self \<Rightarrow>
     (case train_text self of
        None \<Rightarrow> Inl AttributeError
      | Some text \<Rightarrow>
     (case gridsearch_labels self of
        None \<Rightarrow> Inl AttributeError
      | Some gs_labels \<Rightarrow>
     (case grid_fit (seed self) (seed self) param_grid n_jobs use_multithreading text gs_labels of
        Inl e \<Rightarrow> Inl e
      | Inr best \<Rightarrow> Inr (self\<lparr>w2v_agg_model := Some best\<rparr>)))))"

subsubsection \<open>\<^verbatim>\<open>_patient_aggregation\<close>\<close>

text \<open>
  The values of \<^verbatim>\<open>patient_to_nv_map\<close> are numpy arrays: the vector of the patient's
  first note (rank 1), or what \<^verbatim>\<open>np.vstack\<close> made of it and the later notes (rank 2).
\<close>

datatype ndarray = Arr1 vec | Arr2 matrix

text \<open>
  \<^verbatim>\<open>np.vstack((a, vector))\<close>: a rank-1 array counts as one row; the rows must have
  the length of \<^verbatim>\<open>vector\<close>, otherwise ValueError.
\<close>

definition np_vstack :: "ndarray \<Rightarrow> vec \<Rightarrow> error + ndarray" where
  "np_vstack a v =
     (case a of
        Arr1 r \<Rightarrow> if length r = length v then Inr (Arr2 [r, v]) else Inl ValueError
      | Arr2 rows \<Rightarrow>
          if list_all (\<lambda>r. length r = length v) rows then Inr (Arr2 (rows @ [v]))
          else Inl ValueError)"

text \<open>
  \<^verbatim>\<open>np.mean(array, 0)\<close>: for a rank-1 array the mean of its components, a scalar; for a
  rank-2 array the vector of the column means. (The mean of an empty rank-1 array is NaN
  in numpy and 0 here; \<^verbatim>\<open>np.vstack\<close> never builds a rank-2 array with no row.)
\<close>

datatype np_value = Scalar real | Vector vec

definition np_mean_axis0 :: "ndarray \<Rightarrow> np_value" where
  "np_mean_axis0 a =
     (case a of
        Arr1 r \<Rightarrow> Scalar (sum_list r / real (length r))
      | Arr2 [] \<Rightarrow> Vector []
      | Arr2 (r # rs) \<Rightarrow> Vector (np_mean0 r rs))"

text \<open>\<^verbatim>\<open>X[i,:] = value\<close> for a row of width \<open>w\<close>: a scalar fills the row.\<close>

definition assign_value :: "nat \<Rightarrow> np_value \<Rightarrow> error + vec" where
  "assign_value w val =
     (case val of Scalar s \<Rightarrow> Inr (replicate w s) | Vector v \<Rightarrow> assign_row w v)"

text \<open>The loop of the branch \<^verbatim>\<open>labels is not None\<close>, over the zipped triples.\<close>

fun group_labelled ::
  "('p, ndarray) dict \<Rightarrow> 'l list \<Rightarrow> ('p \<times> vec \<times> 'l) list
   \<Rightarrow> error + (('p, ndarray) dict \<times> 'l list)" where
  "group_labelled patient_to_nv_map patient_labels [] =
     Inr (patient_to_nv_map, patient_labels)"
| "group_labelled patient_to_nv_map patient_labels ((p_id, vector, lab) # rest) =
     (case map_of patient_to_nv_map p_id of
        None \<Rightarrow>
          group_labelled (dict_set patient_to_nv_map p_id (Arr1 vector))
            (patient_labels @ [lab]) rest
      | Some a \<Rightarrow>
          (case np_vstack a vector of
             Inl e \<Rightarrow> Inl e
           | Inr a' \<Rightarrow>
               group_labelled (dict_set patient_to_nv_map p_id a') patient_labels rest))"

text \<open>The loop of the branch \<^verbatim>\<open>labels is None\<close>, over the zipped pairs.\<close>

fun group_unlabelled ::
  "('p, ndarray) dict \<Rightarrow> ('p \<times> vec) list \<Rightarrow> error + ('p, ndarray) dict" where
  "group_unlabelled patient_to_nv_map [] = Inr patient_to_nv_map"
| "group_unlabelled patient_to_nv_map ((p_id, vector) # rest) =
     (case map_of patient_to_nv_map p_id of
        None \<Rightarrow> group_unlabelled (dict_set patient_to_nv_map p_id (Arr1 vector)) rest
      | Some a \<Rightarrow>
          (case np_vstack a vector of
             Inl e \<Rightarrow> Inl e
           | Inr a' \<Rightarrow> group_unlabelled (dict_set patient_to_nv_map p_id a') rest))"

text \<open>
  The last loop, over \<^verbatim>\<open>patient_to_nv_map.values()\<close>: the rows of \<^verbatim>\<open>X\<close>, which
  \<^verbatim>\<open>np.empty((len(patient_to_nv_map), dim))\<close> made of width \<^verbatim>\<open>dim\<close>.
\<close>

fun mean_rows :: "nat \<Rightarrow> ndarray list \<Rightarrow> error + matrix" where
  "mean_rows d [] = Inr []"
| "mean_rows d (array # arrays) =
     (case assign_value d (np_mean_axis0 array) of
        Inl e \<Rightarrow> Inl e
      | Inr row \<Rightarrow>
          (case mean_rows d arrays of Inl e \<Rightarrow> Inl e | Inr X \<Rightarrow> Inr (row # X)))"

text \<open>
  \<^verbatim>\<open>_patient_aggregation(self, note_vectors, labels)\<close>. \<^verbatim>\<open>dim\<close> is the embedding's
  \<^verbatim>\<open>vector_size\<close>; the patient identifiers are always \<^verbatim>\<open>self.train_patient_ids\<close>;
  \<^verbatim>\<open>zip\<close> stops at the shortest of its arguments.
\<close>

definition patient_aggregation ::
  "'p w2v_predictor \<Rightarrow> matrix \<Rightarrow> 'l list option \<Rightarrow> error + (matrix \<times> 'l list)" where
  "patient_aggregation self note_vectors labels =
     (case w2v_agg_model self of
        None \<Rightarrow> Inl AttributeError
      | Some agg \<Rightarrow>
     (case embedding agg of
        None \<Rightarrow> Inl AttributeError
      | Some wv \<Rightarrow>
     (let dim = vector_size wv in
      case train_patient_ids self of
        None \<Rightarrow> Inl AttributeError
      | Some p_ids \<Rightarrow>
     (case (case labels of
              Some labs \<Rightarrow> group_labelled [] [] (zip p_ids (zip note_vectors labs))
            | None \<Rightarrow>
                (case group_unlabelled [] (zip p_ids note_vectors) of
                   Inl e \<Rightarrow> Inl e
                 | Inr m \<Rightarrow> Inr (m, []))) of
        Inl e \<Rightarrow> Inl e
      | Inr (patient_to_nv_map, patient_labels) \<Rightarrow>
          (case mean_rows dim (map snd patient_to_nv_map) of
             Inl e \<Rightarrow> Inl e
           | Inr X \<Rightarrow> Inr (X, patient_labels))))))"

text \<open>
  Two predicates for the proofs about the grouping: an array built from note vectors of
  width \<open>w\<close>, and an array that \<^verbatim>\<open>np.vstack\<close> built (a patient with several notes).
\<close>

definition note_array :: "nat \<Rightarrow> ndarray \<Rightarrow> bool" where
  "note_array w a =
     (case a of
        Arr1 v \<Rightarrow> length v = w
      | Arr2 rows \<Rightarrow> rows \<noteq> [] \<and> list_all (\<lambda>r. length r = w) rows)"

definition stacked :: "ndarray \<Rightarrow> bool" where
  "stacked a = (case a of Arr1 v \<Rightarrow> False | Arr2 rows \<Rightarrow> True)"

subsubsection \<open>\<^verbatim>\<open>train\<close> and \<^verbatim>\<open>test\<close>\<close>

text \<open>
  \<^verbatim>\<open>train(text, labels)\<close> does nothing when both arguments are given. Otherwise it
  aggregates the cached note vectors by patient and refines the classifier on them; the
  second grid search is the parameter \<open>refine\<close>.
\<close>

definition train ::
  "'p w2v_predictor \<Rightarrow> (matrix \<Rightarrow> int list \<Rightarrow> error + unit) \<Rightarrow> string list list option
   \<Rightarrow> int list option \<Rightarrow> error + 'p w2v_predictor" where
  "train self refine text labels =
     (if text \<noteq> None \<and> labels \<noteq> None then Inr self
      else
     (case w2v_agg_model self of
        None \<Rightarrow> Inl AttributeError
      | Some agg \<Rightarrow>
     (case note_level_aggregations agg of
        None \<Rightarrow> Inl AttributeError
      | Some note_vectors \<Rightarrow>
     (case patient_aggregation self note_vectors (None :: int list option) of
        Inl e \<Rightarrow> Inl e
      | Inr (X, _) \<Rightarrow>
     (case train_labels self of
        None \<Rightarrow> Inl AttributeError
      | Some labs \<Rightarrow>
     (case refine X labs of Inl e \<Rightarrow> Inl e | Inr _ \<Rightarrow> Inr self))))))"

text \<open>
  \<^verbatim>\<open>test(corpus_fp, readm_fp)\<close> loads the test data, trains the embedding further on
  the test notes (the parameter \<open>train_more\<close>), aggregates the transformed notes by
  patient and scores the classifier (the parameter \<open>evaluate\<close>).
\<close>

definition test ::
  "'p w2v_predictor \<Rightarrow> (string \<Rightarrow> string list) \<Rightarrow> (keyed_vectors \<Rightarrow> string list list \<Rightarrow> keyed_vectors)
   \<Rightarrow> (matrix \<Rightarrow> int list \<Rightarrow> error + 'r) \<Rightarrow> 'p corpus_row list \<Rightarrow> 'p readm_table
   \<Rightarrow> error + 'r" where
  "test self word_tokenize train_more evaluate corpus_file readm_file =
     (case load_test_data self word_tokenize corpus_file readm_file of
        Inl e \<Rightarrow> Inl e
      | Inr self \<Rightarrow>
     (case test_text self of
        None \<Rightarrow> Inl AttributeError
      | Some ttext \<Rightarrow>
     (case w2v_agg_model self of
        None \<Rightarrow> Inl AttributeError
      | Some agg \<Rightarrow>
     (case embedding agg of
        None \<Rightarrow> Inl AttributeError
      | Some wv \<Rightarrow>
     (let agg = agg\<lparr>embedding := Some (train_more wv ttext)\<rparr>;
          self = self\<lparr>w2v_agg_model := Some agg\<rparr>
      in
      case transform agg ttext False of
        Inl e \<Rightarrow> Inl e
      | Inr (note_vectors, _) \<Rightarrow>
     (case test_labels self of
        None \<Rightarrow> Inl AttributeError
      | Some tlabels \<Rightarrow>
     (case patient_aggregation self note_vectors (Some tlabels) of
        Inl e \<Rightarrow> Inl e
      | Inr (X, agg_test_labels) \<Rightarrow> evaluate X agg_test_labels)))))))"

text \<open>
  Concrete inputs for the instances below: a corpus of three notes of the patients 1, 2
  and 1, a label table that knows the patient 1 only, and a tokenizer that returns the
  note as its single token.
\<close>

definition example_corpus :: "int corpus_row list" where
  "example_corpus =
     [\<lparr>SUBJECT_ID = 1, HADM_ID = ''100'', TXT = Some ''chest pain'', SEMTYPES = None\<rparr>,
      \<lparr>SUBJECT_ID = 2, HADM_ID = ''200'', TXT = Some ''fever'', SEMTYPES = None\<rparr>,
      \<lparr>SUBJECT_ID = 1, HADM_ID = ''101'', TXT = None, SEMTYPES = None\<rparr>]"

definition example_readm :: "int readm_table" where
  "example_readm = [(1, 1)]"

definition example_predictor :: "int w2v_predictor" where
  "example_predictor = predictor_init ''TXT'' False 1 (Some 100000) (Some 1000) False"

text \<open>
  A predictor as \<^verbatim>\<open>choose_params\<close> would leave it: the patient identifiers of the
  training notes and a fitted embedding of the given dimension.
\<close>

definition fitted_predictor :: "'p list \<Rightarrow> keyed_vectors \<Rightarrow> 'p w2v_predictor" where
  "fitted_predictor p_ids wv =
     (predictor_init ''TEXT'' False 1 (Some 100000) (Some 1000) False)
       \<lparr>train_patient_ids := Some p_ids,
        w2v_agg_model := Some (embed_aggregate_init\<lparr>embedding := Some wv\<rparr>)\<rparr>"

subsection \<open>torch tensors\<close>

text \<open>
  A tensor is its shape and its elements in row-major order. Token identifiers and
  attention masks are integer tensors (the masks after \<^verbatim>\<open>.long()\<close>); logits and
  losses are real tensors.
\<close>

datatype 'a tensor = Tensor (shape: "nat list") (elems: "'a list")

text \<open>\<^verbatim>\<open>len(t)\<close>: the first dimension; a tensor of rank 0 has no length.\<close>

definition tensor_len :: "'a tensor \<Rightarrow> error + nat" where
  "tensor_len t = (case shape t of [] \<Rightarrow> Inl TypeError | n # rest \<Rightarrow> Inr n)"

text \<open>\<^verbatim>\<open>t.shape[i]\<close>: IndexError when the tensor has no dimension \<open>i\<close>.\<close>

definition shape_at :: "'a tensor \<Rightarrow> nat \<Rightarrow> error + nat" where
  "shape_at t i = (if i < length (shape t) then Inr (shape t ! i) else Inl IndexError)"

text \<open>
  \<^verbatim>\<open>t[a:b]\<close> with \<open>0 \<le> a \<le> b\<close>: a slice along the first dimension, clipped to the
  tensor; the other dimensions stay.
\<close>

definition tensor_slice :: "'a tensor \<Rightarrow> nat \<Rightarrow> nat \<Rightarrow> error + 'a tensor" where
  "tensor_slice t a b =
     (case shape t of
        [] \<Rightarrow> Inl IndexError
      | n # rest \<Rightarrow>
          (let lo = min a n; hi = min b n; stride = prod_list rest
           in Inr (Tensor ((hi - lo) # rest)
                     (take ((hi - lo) * stride) (drop (lo * stride) (elems t))))))"

definition torch_ones :: "nat \<Rightarrow> int tensor" where
  "torch_ones n = Tensor [n] (replicate n 1)"

text \<open>\<^verbatim>\<open>torch.zeros(n)\<close> raises RuntimeError for a negative size.\<close>

definition torch_zeros :: "int \<Rightarrow> error + int tensor" where
  "torch_zeros n = (if n < 0 then Inl RuntimeError else Inr (Tensor [nat n] (replicate (nat n) 0)))"

text \<open>
  \<^verbatim>\<open>torch.cat((a, b))\<close> along dimension 0: an empty tensor of shape \<open>(0,)\<close> is skipped;
  otherwise the two tensors must have the same rank, at least 1, and agree on every
  dimension but the first, or RuntimeError is raised.
\<close>

definition torch_cat :: "'a tensor \<Rightarrow> 'a tensor \<Rightarrow> error + 'a tensor" where
  "torch_cat a b =
     (if shape a = [0] then Inr b
      else if shape b = [0] then Inr a
      else
        (case (shape a, shape b) of
           (n # ra, m # rb) \<Rightarrow>
             if ra = rb then Inr (Tensor ((n + m) # ra) (elems a @ elems b))
             else Inl RuntimeError
         | _ \<Rightarrow> Inl RuntimeError))"

text \<open>\<^verbatim>\<open>t.reshape(n)\<close>: RuntimeError unless the tensor holds \<open>n\<close> elements.\<close>

definition reshape1 :: "'a tensor \<Rightarrow> nat \<Rightarrow> error + 'a tensor" where
  "reshape1 t n = (if length (elems t) = n then Inr (Tensor [n] (elems t)) else Inl RuntimeError)"

subsection \<open>\<^verbatim>\<open>EncodedDataset\<close>\<close>

text \<open>
  What \<^verbatim>\<open>tokenizer.encode_plus\<close> returns: the identifiers and the mask of the first
  \<^verbatim>\<open>seq_len\<close> tokens and, when the note is longer, the entry
  \<^verbatim>\<open>overflowing_tokens\<close>. The tokenizer is a library object and a parameter of the
  model; the entry is, depending on the version of the library, a tensor (with
  \<^verbatim>\<open>return_tensors='pt'\<close> of shape \<open>(1, n)\<close>) or a plain Python list.
\<close>

datatype token_seq = PyList "int list" | PyTensor "int tensor"

record encoding =
  enc_input_ids :: "int tensor"
  enc_attention_mask :: "int tensor"
  enc_overflowing_tokens :: "token_seq option"

type_synonym tokenizer = "string \<Rightarrow> nat \<Rightarrow> encoding"

text \<open>A row of the data frame: \<^verbatim>\<open>SUBJECT_ID\<close>, the text column and \<^verbatim>\<open>READM\<close>.\<close>

record 'l labelled_row =
  subject_id :: int
  row_text :: string
  READM :: 'l

record 'l encoded_dataset =
  input_ids :: "int tensor list"
  attn_masks :: "int tensor list"
  labels :: "'l list"
  patient_ids :: "int list"

definition seq_len_of :: "token_seq \<Rightarrow> error + nat" where
  "seq_len_of overflow =
     (case overflow of PyList xs \<Rightarrow> Inr (length xs) | PyTensor t \<Rightarrow> tensor_len t)"

definition seq_slice :: "token_seq \<Rightarrow> nat \<Rightarrow> nat \<Rightarrow> error + token_seq" where
  "seq_slice overflow a b =
     (case overflow of
        PyList xs \<Rightarrow> Inr (PyList (take (b - a) (drop a xs)))
      | PyTensor t \<Rightarrow>
          (case tensor_slice t a b of Inl e \<Rightarrow> Inl e | Inr t' \<Rightarrow> Inr (PyTensor t')))"

text \<open>
  The body of the loop over the overflow for the index \<open>i\<close>, after the two appends of
  the patient and the label: the chunk \<^verbatim>\<open>overflow[seq_len*i:seq_len*(i+1)]\<close>, its
  length read as \<^verbatim>\<open>overflow_seq.shape[1]\<close> (a Python list has no attribute
  \<^verbatim>\<open>shape\<close>), and the padded identifiers with their mask.
\<close>

definition overflow_unit :: "nat \<Rightarrow> token_seq \<Rightarrow> nat \<Rightarrow> error + (int tensor \<times> int tensor)" where
  "overflow_unit seq_len overflow i =
     (case seq_slice overflow (seq_len * i) (seq_len * (i + 1)) of
        Inl e \<Rightarrow> Inl e
      | Inr (PyList xs) \<Rightarrow> Inl AttributeError
      | Inr (PyTensor overflow_seq) \<Rightarrow>
     (case shape_at overflow_seq 1 of
        Inl e \<Rightarrow> Inl e
      | Inr overflow_seq_len \<Rightarrow>
          if overflow_seq_len = seq_len then Inr (overflow_seq, torch_ones seq_len)
          else
     (case torch_zeros (int seq_len - int overflow_seq_len) of
        Inl e \<Rightarrow> Inl e
      | Inr zeros \<Rightarrow>
     (case torch_cat overflow_seq zeros of
        Inl e \<Rightarrow> Inl e
      | Inr padded \<Rightarrow>
     (case torch_cat (torch_ones overflow_seq_len) zeros of
        Inl e \<Rightarrow> Inl e
      | Inr attn_mask \<Rightarrow> Inr (padded, attn_mask))))))"

fun overflow_loop ::
  "nat \<Rightarrow> token_seq \<Rightarrow> int \<Rightarrow> 'l \<Rightarrow> 'l encoded_dataset \<Rightarrow> nat list
   \<Rightarrow> error + 'l encoded_dataset" where
  "overflow_loop seq_len overflow patient label ds [] = Inr ds"
| "overflow_loop seq_len overflow patient label ds (i # rest) =
     (let ds = ds\<lparr>patient_ids := patient_ids ds @ [patient], labels := labels ds @ [label]\<rparr>
      in case overflow_unit seq_len overflow i of
           Inl e \<Rightarrow> Inl e
         | Inr (ids, attn_mask) \<Rightarrow>
             overflow_loop seq_len overflow patient label
               (ds\<lparr>input_ids := input_ids ds @ [ids],
                   attn_masks := attn_masks ds @ [attn_mask]\<rparr>) rest)"

text \<open>
  One round of the loop over the rows: the primary unit, then, when the encoding has
  the entry \<^verbatim>\<open>overflowing_tokens\<close>, the loop over \<^verbatim>\<open>range(ceil(n_overflow/seq_len))\<close>.
\<close>

definition encode_note ::
  "tokenizer \<Rightarrow> nat \<Rightarrow> 'l encoded_dataset \<Rightarrow> 'l labelled_row \<Rightarrow> error + 'l encoded_dataset" where
  "encode_note tokenize seq_len ds row =
     (let enc = tokenize (row_text row) seq_len in
      case reshape1 (enc_input_ids enc) seq_len of
        Inl e \<Rightarrow> Inl e
      | Inr ids \<Rightarrow>
     (case reshape1 (enc_attention_mask enc) seq_len of
        Inl e \<Rightarrow> Inl e
      | Inr attn_mask \<Rightarrow>
     (let ds = \<lparr>input_ids = input_ids ds @ [ids], attn_masks = attn_masks ds @ [attn_mask],
                labels = labels ds @ [READM row],
                patient_ids = patient_ids ds @ [subject_id row]\<rparr>
      in case enc_overflowing_tokens enc of
           None \<Rightarrow> Inr ds
         | Some overflow \<Rightarrow>
             (case seq_len_of overflow of
                Inl e \<Rightarrow> Inl e
              | Inr n_overflow \<Rightarrow>
                  if seq_len = 0 then Inl ZeroDivisionError
                  else overflow_loop seq_len overflow (subject_id row) (READM row) ds
                         [0..<(n_overflow + seq_len - 1) div seq_len]))))"

fun encode_rows ::
  "tokenizer \<Rightarrow> nat \<Rightarrow> 'l encoded_dataset \<Rightarrow> 'l labelled_row list \<Rightarrow> error + 'l encoded_dataset" where
  "encode_rows tokenize seq_len ds [] = Inr ds"
| "encode_rows tokenize seq_len ds (row # rows) =
     (case encode_note tokenize seq_len ds row of
        Inl e \<Rightarrow> Inl e
      | Inr ds' \<Rightarrow> encode_rows tokenize seq_len ds' rows)"

definition encoded_dataset_init ::
  "tokenizer \<Rightarrow> nat \<Rightarrow> 'l labelled_row list \<Rightarrow> error + 'l encoded_dataset" where
  "encoded_dataset_init tokenize seq_len df =
     encode_rows tokenize seq_len
       \<lparr>input_ids = [], attn_masks = [], labels = [], patient_ids = []\<rparr> df"

text \<open>\<^verbatim>\<open>__len__\<close> and \<^verbatim>\<open>__getitem__\<close>; a negative index counts from the end.\<close>

definition dataset_len :: "'l encoded_dataset \<Rightarrow> nat" where
  "dataset_len self = length (patient_ids self)"

definition list_getitem :: "'a list \<Rightarrow> int \<Rightarrow> error + 'a" where
  "list_getitem xs i =
     (let n = int (length xs); j = (if i < 0 then n + i else i)
      in if 0 \<le> j \<and> j < n then Inr (xs ! nat j) else Inl IndexError)"

record 'l dataset_item =
  item_input_ids :: "int tensor"
  item_attn_masks :: "int tensor"
  item_labels :: 'l
  item_patient_ids :: int

definition getitem :: "'l encoded_dataset \<Rightarrow> int \<Rightarrow> error + 'l dataset_item" where
  "getitem self idx =
     (case list_getitem (input_ids self) idx of
        Inl e \<Rightarrow> Inl e
      | Inr ids \<Rightarrow>
     (case list_getitem (attn_masks self) idx of
        Inl e \<Rightarrow> Inl e
      | Inr attn_mask \<Rightarrow>
     (case list_getitem (labels self) idx of
        Inl e \<Rightarrow> Inl e
      | Inr label \<Rightarrow>
     (case list_getitem (patient_ids self) idx of
        Inl e \<Rightarrow> Inl e
      | Inr patient \<Rightarrow>
          Inr \<lparr>item_input_ids = ids, item_attn_masks = attn_mask, item_labels = label,
               item_patient_ids = patient\<rparr>))))"

text \<open>
  A stand-in tokenizer for the instances: a token per character, the first
  \<^verbatim>\<open>seq_len\<close> tokens padded with zeros, and the rest as \<^verbatim>\<open>overflowing_tokens\<close> in
  one of the three forms a tokenizer library can return.
\<close>

datatype overflow_form = BatchTensor | FlatTensor | PlainList

definition char_tokenizer :: "overflow_form \<Rightarrow> tokenizer" where
  "char_tokenizer form text_of_note seq_len =
     (let ids = map (\<lambda>c. int (of_char c :: nat)) text_of_note;
          head = take seq_len ids;
          rest = drop seq_len ids
      in \<lparr>enc_input_ids = Tensor [1, seq_len] (head @ replicate (seq_len - length head) 0),
          enc_attention_mask =
            Tensor [1, seq_len] (replicate (length head) 1 @ replicate (seq_len - length head) 0),
          enc_overflowing_tokens =
            (if rest = [] then None
             else Some (case form of
                          BatchTensor \<Rightarrow> PyTensor (Tensor [1, length rest] rest)
                        | FlatTensor \<Rightarrow> PyTensor (Tensor [length rest] rest)
                        | PlainList \<Rightarrow> PyList rest))\<rparr>)"

text \<open>
  The invariant of the four lists, and the pairs of patient and label that the units
  carry.
\<close>

definition aligned :: "'l encoded_dataset \<Rightarrow> bool" where
  "aligned ds =
     (length (input_ids ds) = length (patient_ids ds)
      \<and> length (attn_masks ds) = length (patient_ids ds)
      \<and> length (labels ds) = length (patient_ids ds))"

definition unit_pairs :: "'l encoded_dataset \<Rightarrow> (int \<times> 'l) list" where
  "unit_pairs ds = zip (patient_ids ds) (labels ds)"

subsection \<open>\<^verbatim>\<open>MIMICBERTReadmissionPredictor\<close>\<close>

text \<open>
  A named parameter of the network: its qualified name, whether the optimiser updates
  it, and its value. The pretrained network (\<^verbatim>\<open>from_pretrained\<close>) is a parameter of
  the model, given by its list \<^verbatim>\<open>named_parameters()\<close>.
\<close>

record 'w parameter =
  param_name :: string
  requires_grad :: bool
  param_data :: 'w

text \<open>\<^verbatim>\<open>s.startswith(prefix)\<close>.\<close>

definition startswith :: "string \<Rightarrow> string \<Rightarrow> bool" where
  "startswith s pre = (take (length pre) s = pre)"

text \<open>
  The keyword arguments of \<^verbatim>\<open>__init__\<close> that the modelled methods read, each present
  or absent, and the attributes of the object. An attribute with no default
  (\<^verbatim>\<open>st_aug\<close>, \<^verbatim>\<open>batch_size\<close>, \<^verbatim>\<open>val_frac\<close>, \<^verbatim>\<open>write_dev_results_to\<close>) exists only
  when its keyword argument was given.
\<close>

record bert_kwargs =
  kw_bert_model :: "string option"
  kw_st_aug :: "bool option"
  kw_batch_size :: "nat option"
  kw_val_frac :: "real option"
  kw_proba_aggregation_scale_factor :: "real option"
  kw_sequence_len :: "nat option"
  kw_db :: "bool option"
  kw_write_dev_results_to :: "string option option"
  kw_write_test_results_to :: "string option option"
  kw_update_all_params :: "bool option"

record 'w bert_predictor =
  bert_model :: string
  bert_st_aug :: "bool option"
  batch_size :: "nat option"
  val_frac :: "real option"
  proba_aggregation_scale_factor :: real
  sequence_len :: nat
  bert_db :: bool
  write_dev_results_to :: "string option option"
  write_test_results_to :: "string option"
  update_all_params :: bool
  model :: "'w parameter list"
  train_df :: "int option labelled_row list option"
  val_df :: "int option labelled_row list option"
  dev_sample_weight :: "real list option"
  test_df :: "int option labelled_row list option"
  test_sample_weight :: "real list option"

definition default :: "'a \<Rightarrow> 'a option \<Rightarrow> 'a" where
  "default d kw = (case kw of None \<Rightarrow> d | Some v \<Rightarrow> v)"

text \<open>
  \<^verbatim>\<open>__init__\<close>: the version check (its outcome is the parameter \<open>version_ok\<close>), the
  defaults, the keyword arguments, the pretrained network, and the loop that sets
  \<^verbatim>\<open>requires_grad = False\<close> on the parameters whose name starts with
  \<^verbatim>\<open>embeddings\<close> when \<^verbatim>\<open>update_all_params\<close> is off.
\<close>

definition freeze :: "'w parameter list \<Rightarrow> 'w parameter list" where
  "freeze named_parameters =
     map (\<lambda>param. if startswith (param_name param) ''embeddings''
                   then param\<lparr>requires_grad := False\<rparr> else param) named_parameters"

definition bert_predictor_init ::
  "bool \<Rightarrow> (string \<Rightarrow> 'w parameter list) \<Rightarrow> bert_kwargs \<Rightarrow> error + 'w bert_predictor" where
  "bert_predictor_init version_ok from_pretrained kwargs =
     (if \<not> version_ok then Inl RuntimeError
      else
        (case kw_bert_model kwargs of
           None \<Rightarrow> Inl AttributeError
         | Some name \<Rightarrow>
             (let flag = default False (kw_update_all_params kwargs);
                  pretrained = from_pretrained name
              in Inr \<lparr>bert_model = name,
                      bert_st_aug = kw_st_aug kwargs,
                      batch_size = kw_batch_size kwargs,
                      val_frac = kw_val_frac kwargs,
                      proba_aggregation_scale_factor =
                        default 2 (kw_proba_aggregation_scale_factor kwargs),
                      sequence_len = default 256 (kw_sequence_len kwargs),
                      bert_db = default False (kw_db kwargs),
                      write_dev_results_to = kw_write_dev_results_to kwargs,
                      write_test_results_to = default None (kw_write_test_results_to kwargs),
                      update_all_params = flag,
                      model = (if \<not> flag then freeze pretrained else pretrained),
                      train_df = None, val_df = None, dev_sample_weight = None,
                      test_df = None, test_sample_weight = None\<rparr>)))"

text \<open>
  \<^verbatim>\<open>forward\<close>: the network applied to the identifiers and the mask; its result is a
  tuple that must have one component. The network is the parameter \<open>net\<close>, a function
  of the parameters' values.
\<close>

definition forward ::
  "('w list \<Rightarrow> int tensor \<Rightarrow> int tensor \<Rightarrow> 'o list) \<Rightarrow> 'w bert_predictor \<Rightarrow> int tensor
   \<Rightarrow> int tensor \<Rightarrow> error + 'o" where
  "forward net self ids masks =
     (case net (map param_data (model self)) ids masks of
        [logits] \<Rightarrow> Inr logits
      | _ \<Rightarrow> Inl ValueError)"

subsubsection \<open>\<^verbatim>\<open>setup\<close>\<close>

text \<open>
  The text table as \<^verbatim>\<open>load_txt_df\<close> returns it (a function of the repository's
  \<^verbatim>\<open>util\<close> module, taken as given) and the label table as \<^verbatim>\<open>read_csv\<close> returns it.
  \<^verbatim>\<open>merge(..., on='SUBJECT_ID', how='left')\<close> keeps every row of the text table, once
  for every label row of its patient, and once with a missing label (NaN, here \<open>None\<close>)
  when the patient has none.
\<close>

record text_row =
  txt_subject_id :: int
  txt_text :: string
  txt_semtypes :: string

definition merge_left :: "text_row list \<Rightarrow> int readm_table \<Rightarrow> (text_row \<times> int option) list" where
  "merge_left text_df readm =
     concat (map (\<lambda>r. case filter (\<lambda>(p, l). p = txt_subject_id r) readm of
                         [] \<Rightarrow> [(r, None)]
                       | m # ms \<Rightarrow> map (\<lambda>(p, l). (r, Some l)) (m # ms)) text_df)"

text \<open>
  \<^verbatim>\<open>_make_sample_weights(y)\<close>. A column with a missing label is a float column, and
  \<^verbatim>\<open>np.bincount\<close> raises TypeError for it; for a negative label it raises ValueError.
  Otherwise the weight of a class is \<open>len(y) / (n_classes * count)\<close>, and a sample gets
  the weight of class 0 when it is 0 and of class 1 otherwise. (For a label above 1 and
  no label 1 numpy gives the weight \<open>inf\<close>, the model the value of a division by zero.)
\<close>

definition bincount :: "int list \<Rightarrow> nat list" where
  "bincount y =
     (if y = [] then []
      else map (\<lambda>c. length (filter (\<lambda>v. v = int c) y)) [0..<Suc (nat (Max (set y)))])"

definition make_sample_weights :: "int option list \<Rightarrow> error + real list" where
  "make_sample_weights y =
     (if list_ex (\<lambda>v. v = None) y then Inl TypeError
      else
        (let ys = map the y in
         if list_ex (\<lambda>v. v < 0) ys then Inl ValueError
         else
           (let n_classes = length (remdups ys);
                class_weight =
                  map (\<lambda>count. real (length ys) / (real n_classes * real count)) (bincount ys)
            in Inr (map (\<lambda>sample. if sample = 0 then class_weight ! 0 else class_weight ! 1) ys))))"

text \<open>
  \<^verbatim>\<open>int(x)\<close> of a float truncates towards zero; \<^verbatim>\<open>random.sample(population, k)\<close>
  raises ValueError unless \<open>0 \<le> k \<le> len(population)\<close>, and its choice is the parameter
  \<open>sampler\<close>.
\<close>

definition py_int :: "real \<Rightarrow> int" where
  "py_int x = (if 0 \<le> x then \<lfloor>x\<rfloor> else \<lceil>x\<rceil>)"

definition random_sample :: "(int list \<Rightarrow> nat \<Rightarrow> int list) \<Rightarrow> int list \<Rightarrow> int \<Rightarrow> error + int list" where
  "random_sample sampler population k =
     (if k < 0 \<or> int (length population) < k then Inl ValueError
      else Inr (sampler population (nat k)))"

datatype frames =
    Split "int option labelled_row list" "int option labelled_row list" "real list"
  | Whole "int option labelled_row list" "real list"

text \<open>
  \<^verbatim>\<open>_dataframe_setup\<close>, from the two tables that were read. With \<^verbatim>\<open>st_aug\<close> the
  semantic types are appended to the text.
\<close>

definition dataframe_setup ::
  "'w bert_predictor \<Rightarrow> (int list \<Rightarrow> nat \<Rightarrow> int list) \<Rightarrow> text_row list \<Rightarrow> int readm_table
   \<Rightarrow> bool \<Rightarrow> error + frames" where
  "dataframe_setup self sampler text_df readm split =
     (case bert_st_aug self of
        None \<Rightarrow> Inl AttributeError
      | Some aug \<Rightarrow>
     (let labelled_text =
            map (\<lambda>(r, label).
                   \<lparr>subject_id = txt_subject_id r,
                    row_text = (if aug then txt_text r @ txt_semtypes r else txt_text r),
                    READM = label\<rparr>)
              (merge_left text_df readm)
      in
      if split then
        (let all_patients = unique_ids (map subject_id labelled_text) in
         case val_frac self of
           None \<Rightarrow> Inl AttributeError
         | Some fraction \<Rightarrow>
        (case random_sample sampler all_patients
                (py_int (real (length all_patients) * fraction)) of
           Inl e \<Rightarrow> Inl e
         | Inr val_patients \<Rightarrow>
        (let val = filter (\<lambda>r. subject_id r \<in> set val_patients) labelled_text;
             trn = filter (\<lambda>r. subject_id r \<notin> set (map subject_id val)) labelled_text
         in case make_sample_weights (map READM val) of
              Inl e \<Rightarrow> Inl e
            | Inr w \<Rightarrow> Inr (Split trn val w))))
      else
        (case make_sample_weights (map READM labelled_text) of
           Inl e \<Rightarrow> Inl e
         | Inr w \<Rightarrow> Inr (Whole labelled_text w))))"

text \<open>
  \<^verbatim>\<open>setup(stage)\<close>, with the tables of the training files and of the test files.
  Unpacking the frames into the attributes cannot fail: the call with \<^verbatim>\<open>split\<close>
  returns three values and the call without returns two.
\<close>

definition setup_stage ::
  "'w bert_predictor \<Rightarrow> (int list \<Rightarrow> nat \<Rightarrow> int list) \<Rightarrow> string
   \<Rightarrow> text_row list \<times> int readm_table \<Rightarrow> text_row list \<times> int readm_table
   \<Rightarrow> error + 'w bert_predictor" where
  "setup_stage self sampler stage train_files test_files =
     (case (if stage = ''fit'' then
              (case dataframe_setup self sampler (fst train_files) (snd train_files) True of
                 Inl e \<Rightarrow> Inl e
               | Inr (Split trn val w) \<Rightarrow>
                   Inr (self\<lparr>train_df := Some trn, val_df := Some val,
                             dev_sample_weight := Some w\<rparr>)
               | Inr (Whole df w) \<Rightarrow> Inl ValueError)
            else Inr self) of
        Inl e \<Rightarrow> Inl e
      | Inr self \<Rightarrow>
          if stage = ''test'' then
            (case dataframe_setup self sampler (fst test_files) (snd test_files) False of
               Inl e \<Rightarrow> Inl e
             | Inr (Whole df w) \<Rightarrow>
                 Inr (self\<lparr>test_df := Some df, test_sample_weight := Some w\<rparr>)
             | Inr (Split trn val w) \<Rightarrow> Inl ValueError)
          else Inr self)"

subsubsection \<open>\<^verbatim>\<open>validation_epoch_end\<close>\<close>

text \<open>
  The output of a step is a dictionary of tensors. \<^verbatim>\<open>[o[s] for o in outputs]\<close> raises
  KeyError when an output has no entry \<open>s\<close>; \<^verbatim>\<open>torch.cat\<close> of an empty list raises
  RuntimeError.
\<close>

type_synonym step_output = "(string, real tensor) dict"

fun gather :: "string \<Rightarrow> (string, 'v) dict list \<Rightarrow> error + 'v list" where
  "gather s [] = Inr []"
| "gather s (o1 # outputs) =
     (case dict_getitem o1 s of
        Inl e \<Rightarrow> Inl e
      | Inr v \<Rightarrow> (case gather s outputs of Inl e \<Rightarrow> Inl e | Inr vs \<Rightarrow> Inr (v # vs)))"

fun torch_cat_list :: "'a tensor list \<Rightarrow> error + 'a tensor" where
  "torch_cat_list [] = Inl RuntimeError"
| "torch_cat_list [t] = (if shape t = [] then Inl RuntimeError else Inr t)"
| "torch_cat_list (t # u # ts) =
     (case torch_cat_list (u # ts) of Inl e \<Rightarrow> Inl e | Inr r \<Rightarrow> torch_cat t r)"

definition cat_key :: "string \<Rightarrow> step_output list \<Rightarrow> error + real tensor" where
  "cat_key s outputs =
     (case gather s outputs of Inl e \<Rightarrow> Inl e | Inr ts \<Rightarrow> torch_cat_list ts)"

text \<open>
  \<^verbatim>\<open>sum(labels).item()\<close>: the built-in \<^verbatim>\<open>sum\<close> adds the entries along the first
  dimension, starting from the integer 0 (which has no method \<^verbatim>\<open>item\<close>), and
  \<^verbatim>\<open>item\<close> needs a tensor of one element.
\<close>

definition sum_item :: "real tensor \<Rightarrow> error + real" where
  "sum_item t =
     (case shape t of
        [] \<Rightarrow> Inl TypeError
      | n # rest \<Rightarrow>
          if n = 0 then Inl AttributeError
          else if prod_list rest = 1 then Inr (sum_list (elems t))
          else Inl ValueError)"

definition metric_names :: "string list" where
  "metric_names = [''acc'', ''prec'', ''recall'', ''f1'', ''auroc'']"

record epoch_result =
  out_loss :: "real tensor"
  out_metrics :: "(string \<times> real) list"
  dev_log :: "string option"

text \<open>
  \<^verbatim>\<open>validation_epoch_end(outputs)\<close>. The metrics are parameters. In the branch of the
  degenerate labels the statement is \<^verbatim>\<open>raise RuntimeWarning(...)\<close>: the exception
  leaves the method.
\<close>

definition validation_epoch_end ::
  "'w bert_predictor \<Rightarrow> (real tensor \<Rightarrow> real tensor \<Rightarrow> real) list \<Rightarrow> step_output list
   \<Rightarrow> error + epoch_result" where
  "validation_epoch_end self metrics outputs =
     (case cat_key ''loss'' outputs of
        Inl e \<Rightarrow> Inl e
      | Inr loss \<Rightarrow>
     (case cat_key ''predictions'' outputs of
        Inl e \<Rightarrow> Inl e
      | Inr predictions \<Rightarrow>
     (case cat_key ''labels'' outputs of
        Inl e \<Rightarrow> Inl e
      | Inr labs \<Rightarrow>
     (case sum_item labs of
        Inl e \<Rightarrow> Inl e
      | Inr label_sum \<Rightarrow>
     (case tensor_len labs of
        Inl e \<Rightarrow> Inl e
      | Inr n \<Rightarrow>
          if label_sum = real n \<or> label_sum = 0 then Inl RuntimeWarning
          else
            (let out = map (\<lambda>(name, metric). (name, metric predictions labs))
                         (zip metric_names metrics)
             in case write_dev_results_to self of
                  None \<Rightarrow> Inl AttributeError
                | Some path \<Rightarrow>
                    Inr \<lparr>out_loss = loss, out_metrics = out, dev_log = path\<rparr>))))))"

subsubsection \<open>\<^verbatim>\<open>_aggreg_subseq_logits\<close>\<close>

text \<open>
  The inner function \<^verbatim>\<open>_scale\<close>: the blend of the maximum and the mean of the scores
  of one patient, with \<open>factor = len(logits) / proba_aggregation_scale_factor\<close>.
\<close>

definition scale :: "real \<Rightarrow> real list \<Rightarrow> error + real" where
  "scale scale_factor logits =
     (if scale_factor = 0 then Inl ZeroDivisionError
      else
        (let factor = real (length logits) / scale_factor in
         case logits of
           [] \<Rightarrow> Inl ValueError
         | x # xs \<Rightarrow>
             Inr ((foldl max x xs + (sum_list logits / real (length logits)) * factor)
                  / (1 + factor))))"

text \<open>
  The three list comprehensions bind \<^verbatim>\<open>logits\<close>, \<^verbatim>\<open>labels\<close> and \<^verbatim>\<open>patient_ids\<close> to
  Python lists, and the header of the first loop reads \<^verbatim>\<open>logits.shape[0]\<close>: a list has
  no attribute \<^verbatim>\<open>shape\<close>. The statements after that header (lines 603 to 623) are
  reached by no execution; they are the parameter \<open>body\<close>, which receives \<^verbatim>\<open>_scale\<close>,
  the shape and the three lists.
\<close>

definition py_list_shape :: "'a list \<Rightarrow> error + nat list" where
  "py_list_shape xs = Inl AttributeError"

definition aggreg_subseq_logits ::
  "'w bert_predictor
   \<Rightarrow> ((real list \<Rightarrow> error + real) \<Rightarrow> nat list \<Rightarrow> real tensor list \<Rightarrow> real tensor list
        \<Rightarrow> real tensor list \<Rightarrow> error + 'r)
   \<Rightarrow> step_output list \<Rightarrow> error + 'r" where
  "aggreg_subseq_logits self body output_list =
     (case gather ''logits'' output_list of
        Inl e \<Rightarrow> Inl e
      | Inr logits \<Rightarrow>
     (case gather ''labels'' output_list of
        Inl e \<Rightarrow> Inl e
      | Inr labs \<Rightarrow>
     (case gather ''patient_ids'' output_list of
        Inl e \<Rightarrow> Inl e
      | Inr p_ids \<Rightarrow>
     (case py_list_shape logits of
        Inl e \<Rightarrow> Inl e
      | Inr logits_shape \<Rightarrow>
          body (scale (proba_aggregation_scale_factor self)) logits_shape logits labs p_ids))))"

text \<open>
  The output of \<^verbatim>\<open>test_step\<close> for a batch of one unit with two classes: the entries
  \<^verbatim>\<open>loss\<close>, \<^verbatim>\<open>logits\<close> and \<^verbatim>\<open>labels\<close> (the entry \<^verbatim>\<open>log\<close>, a dictionary, is left out), and
  the same output with the entry \<^verbatim>\<open>patient_ids\<close> that \<^verbatim>\<open>test_step\<close> does not return.
\<close>

definition example_test_output :: step_output where
  "example_test_output =
     [(''loss'', Tensor [1] [3 / 10]), (''logits'', Tensor [1, 2] [1 / 5, 4 / 5]),
      (''labels'', Tensor [1] [1])]"

definition example_test_output_ids :: step_output where
  "example_test_output_ids = example_test_output @ [(''patient_ids'', Tensor [1] [7])]"

text \<open>
  Concrete inputs for the instances below. The names are those that
  \<^verbatim>\<open>BertForSequenceClassification.named_parameters()\<close> yields: the encoder is the
  submodule \<^verbatim>\<open>bert\<close> of the classification network, so the names of its embedding
  layer start with \<^verbatim>\<open>bert.embeddings.\<close>.
\<close>

definition example_kwargs :: bert_kwargs where
  "example_kwargs =
     \<lparr>kw_bert_model = Some ''bert-base-uncased'', kw_st_aug = Some False,
      kw_batch_size = Some 8, kw_val_frac = Some (1 / 5),
      kw_proba_aggregation_scale_factor = None, kw_sequence_len = None, kw_db = None,
      kw_write_dev_results_to = Some None, kw_write_test_results_to = None,
      kw_update_all_params = None\<rparr>"

definition example_named_parameters :: "nat parameter list" where
  "example_named_parameters =
     [\<lparr>param_name = ''bert.embeddings.word_embeddings.weight'', requires_grad = True,
       param_data = 0\<rparr>,
      \<lparr>param_name = ''bert.embeddings.LayerNorm.weight'', requires_grad = True,
       param_data = 1\<rparr>,
      \<lparr>param_name = ''bert.encoder.layer.0.output.dense.weight'', requires_grad = True,
       param_data = 2\<rparr>,
      \<lparr>param_name = ''classifier.weight'', requires_grad = True, param_data = 3\<rparr>]"

definition example_text_df :: "text_row list" where
  "example_text_df =
     [\<lparr>txt_subject_id = 1, txt_text = ''chest pain'', txt_semtypes = []\<rparr>,
      \<lparr>txt_subject_id = 2, txt_text = ''fever'', txt_semtypes = []\<rparr>]"

definition example_bert_predictor :: "nat bert_predictor" where
  "example_bert_predictor =
     \<lparr>bert_model = ''bert-base-uncased'', bert_st_aug = Some False, batch_size = Some 8,
      val_frac = Some (1 / 5), proba_aggregation_scale_factor = 2, sequence_len = 256,
      bert_db = False, write_dev_results_to = Some None, write_test_results_to = None,
      update_all_params = False, model = example_named_parameters,
      train_df = None, val_df = None, dev_sample_weight = None,
      test_df = None, test_sample_weight = None\<rparr>"

section \<open>Properties\<close>

subsection \<open>Reductions along axis 0\<close>

lemma length_foldl_map2:
  "list_all (\<lambda>v. length v = length r) rs \<Longrightarrow> length (foldl (map2 f) r rs) = length r"
  by (induction rs arbitrary: r) auto

lemma nth_foldl_map2:
  "list_all (\<lambda>v. length v = length r) rs \<Longrightarrow> j < length r \<Longrightarrow>
   foldl (map2 f) r rs ! j = foldl f (r ! j) (map (\<lambda>v. v ! j) rs)"
  by (induction rs arbitrary: r) auto

lemma foldl_add_sum_list: "foldl (+) (a::real) xs = a + sum_list xs"
  by (induction xs arbitrary: a) auto

lemma foldl_max_Max: "foldl max (a::real) xs = Max (insert a (set xs))"
proof (induction xs arbitrary: a)
  case Nil
  then show ?case by simp
next
  case (Cons x xs)
  have "Max (insert (max a x) (set xs)) = Max (insert a (insert x (set xs)))"
    by (cases "set xs = {}") (auto simp: max.assoc max.commute)
  with Cons show ?case by simp
qed

lemma foldl_min_Min: "foldl min (a::real) xs = Min (insert a (set xs))"
proof (induction xs arbitrary: a)
  case Nil
  then show ?case by simp
next
  case (Cons x xs)
  have "Min (insert (min a x) (set xs)) = Min (insert a (insert x (set xs)))"
    by (cases "set xs = {}") (auto simp: min.assoc min.commute)
  with Cons show ?case by simp
qed

subsection \<open>\<^verbatim>\<open>W2VEmbedAggregate.transform\<close>\<close>

lemma note_list_of_resolved: "note_list_of wv note = Inr (resolved wv note)"
  by (induction "note")
     (auto simp: resolved_def dict_getitem_def List.map_filter_simps split: option.splits)

lemma resolved_lengths:
  assumes "wf_vectors wv"
  shows "list_all (\<lambda>v. length v = vector_size wv) (resolved wv note)"
proof -
  have "length v = vector_size wv" if "map_of (vocab wv) w = Some v" for w v
    using assms map_of_SomeD [OF that] by (auto simp: wf_vectors_def list_all_iff)
  then show ?thesis
    by (induction "note")
       (auto simp: resolved_def List.map_filter_simps split: option.splits)
qed

lemma np_mean0_spec:
  assumes "list_all (\<lambda>v. length v = d) (r # rs)"
  shows "np_mean0 r rs = map (\<lambda>j. (\<Sum>v\<leftarrow>r # rs. v ! j) / real (length (r # rs))) [0..<d]"
proof (rule nth_equalityI)
  from assms have all: "list_all (\<lambda>v. length v = length r) rs" and r: "length r = d"
    by (auto simp: list_all_iff)
  show "length (np_mean0 r rs) = length (map (\<lambda>j. (\<Sum>v\<leftarrow>r # rs. v ! j) / real (length (r # rs))) [0..<d])"
    using all r by (simp add: np_mean0_def np_sum0_def length_foldl_map2)
  fix j assume "j < length (np_mean0 r rs)"
  then have j: "j < length r"
    using all by (simp add: np_mean0_def np_sum0_def length_foldl_map2)
  then show "np_mean0 r rs ! j = map (\<lambda>j. (\<Sum>v\<leftarrow>r # rs. v ! j) / real (length (r # rs))) [0..<d] ! j"
    using all r
    by (simp add: np_mean0_def np_sum0_def length_foldl_map2 nth_foldl_map2 foldl_add_sum_list)
qed

lemma np_max0_spec:
  assumes "list_all (\<lambda>v. length v = d) (r # rs)"
  shows "np_max0 r rs = map (\<lambda>j. Max ((\<lambda>v. v ! j) ` set (r # rs))) [0..<d]"
proof (rule nth_equalityI)
  from assms have all: "list_all (\<lambda>v. length v = length r) rs" and r: "length r = d"
    by (auto simp: list_all_iff)
  show "length (np_max0 r rs) = length (map (\<lambda>j. Max ((\<lambda>v. v ! j) ` set (r # rs))) [0..<d])"
    using all r by (simp add: np_max0_def length_foldl_map2)
  fix j assume "j < length (np_max0 r rs)"
  then have j: "j < length r"
    using all by (simp add: np_max0_def length_foldl_map2)
  then show "np_max0 r rs ! j = map (\<lambda>j. Max ((\<lambda>v. v ! j) ` set (r # rs))) [0..<d] ! j"
    using all r by (simp add: np_max0_def nth_foldl_map2 foldl_max_Max)
qed

lemma np_min0_spec:
  assumes "list_all (\<lambda>v. length v = d) (r # rs)"
  shows "np_min0 r rs = map (\<lambda>j. Min ((\<lambda>v. v ! j) ` set (r # rs))) [0..<d]"
proof (rule nth_equalityI)
  from assms have all: "list_all (\<lambda>v. length v = length r) rs" and r: "length r = d"
    by (auto simp: list_all_iff)
  show "length (np_min0 r rs) = length (map (\<lambda>j. Min ((\<lambda>v. v ! j) ` set (r # rs))) [0..<d])"
    using all r by (simp add: np_min0_def length_foldl_map2)
  fix j assume "j < length (np_min0 r rs)"
  then have j: "j < length r"
    using all by (simp add: np_min0_def length_foldl_map2)
  then show "np_min0 r rs ! j = map (\<lambda>j. Min ((\<lambda>v. v ! j) ` set (r # rs))) [0..<d] ! j"
    using all r by (simp add: np_min0_def nth_foldl_map2 foldl_min_Min)
qed

lemma length_feature_vector_spec: "length (feature_vector_spec d vs) = 3 * d"
  by (simp add: feature_vector_spec_def)

lemma note_row_spec:
  assumes "wf_vectors wv"
  shows "note_row wv note = Inr (feature_vector_spec (vector_size wv) (resolved wv note))"
proof (cases "resolved wv note")
  case Nil
  then show ?thesis
    by (simp add: note_row_def note_list_of_resolved assign_row_def feature_vector_spec_def
        mult.commute)
next
  case (Cons r rs)
  have all: "list_all (\<lambda>v. length v = vector_size wv) (r # rs)"
    using resolved_lengths [OF assms, of "note"] Cons by simp
  have agg: "np_mean0 r rs @ np_max0 r rs @ np_min0 r rs
      = feature_vector_spec (vector_size wv) (r # rs)"
    unfolding np_mean0_spec [OF all] np_max0_spec [OF all] np_min0_spec [OF all]
    by (simp add: feature_vector_spec_def)
  have "note_row wv note = assign_row (vector_size wv * 3) (np_mean0 r rs @ np_max0 r rs @ np_min0 r rs)"
    using all Cons
    by (simp add: note_row_def note_list_of_resolved reshape_rows_def concat_aggreg_def)
  also have "\<dots> = Inr (feature_vector_spec (vector_size wv) (r # rs))"
    unfolding agg by (simp add: assign_row_def length_feature_vector_spec mult.commute)
  finally show ?thesis by (simp add: Cons)
qed

lemma note_rows_spec:
  assumes "wf_vectors wv"
  shows "note_rows wv text
    = Inr (map (\<lambda>note. feature_vector_spec (vector_size wv) (resolved wv note)) text)"
  by (induction "text") (simp_all add: note_row_spec [OF assms])

text \<open>
  Claim C4. For a corpus of \<open>N\<close> tokenized notes, \<^verbatim>\<open>transform\<close> raises nothing and
  returns a matrix with exactly \<open>N\<close> rows, each of dimension \<open>3 * vector_size\<close>: the row
  of a note is the zero vector when none of its tokens is in the vocabulary
  (out-of-vocabulary tokens are skipped), and otherwise the concatenation of the
  elementwise mean, maximum and minimum of the resolved token vectors. The hypotheses
  are that the embedding has been fitted and that its vectors have the length
  \<^verbatim>\<open>vector_size\<close>.
\<close>

theorem transform_feature_rows:
  assumes "embedding self = Some wv" and "wf_vectors wv"
  shows "\<exists>X self'. transform self text assign_to_attr = Inr (X, self')
     \<and> length X = length text
     \<and> list_all (\<lambda>row. length row = 3 * vector_size wv) X
     \<and> X = map (\<lambda>note. feature_vector_spec (vector_size wv) (resolved wv note)) text
     \<and> (\<forall>i < length text. resolved wv (text ! i) = [] \<longrightarrow>
           X ! i = replicate (3 * vector_size wv) 0)
     \<and> (\<forall>i < length text. resolved wv (text ! i) \<noteq> [] \<longrightarrow>
           X ! i =
             map (\<lambda>j. (\<Sum>v\<leftarrow>resolved wv (text ! i). v ! j) / real (length (resolved wv (text ! i))))
               [0..<vector_size wv]
           @ map (\<lambda>j. Max ((\<lambda>v. v ! j) ` set (resolved wv (text ! i)))) [0..<vector_size wv]
           @ map (\<lambda>j. Min ((\<lambda>v. v ! j) ` set (resolved wv (text ! i)))) [0..<vector_size wv])"
proof -
  let ?X = "map (\<lambda>note. feature_vector_spec (vector_size wv) (resolved wv note)) text"
  let ?self' = "if assign_to_attr then self\<lparr>note_level_aggregations := Some ?X\<rparr> else self"
  have t: "transform self text assign_to_attr = Inr (?X, ?self')"
    using assms by (simp add: transform_def note_rows_spec)
  have len: "length ?X = length text"
    by simp
  have rows: "list_all (\<lambda>row. length row = 3 * vector_size wv) ?X"
    by (simp add: list_all_iff length_feature_vector_spec)
  have zero: "\<forall>i < length text. resolved wv (text ! i) = [] \<longrightarrow>
      ?X ! i = replicate (3 * vector_size wv) 0"
    by (simp add: feature_vector_spec_def)
  have agg: "\<forall>i < length text. resolved wv (text ! i) \<noteq> [] \<longrightarrow>
      ?X ! i =
        map (\<lambda>j. (\<Sum>v\<leftarrow>resolved wv (text ! i). v ! j) / real (length (resolved wv (text ! i))))
          [0..<vector_size wv]
      @ map (\<lambda>j. Max ((\<lambda>v. v ! j) ` set (resolved wv (text ! i)))) [0..<vector_size wv]
      @ map (\<lambda>j. Min ((\<lambda>v. v ! j) ` set (resolved wv (text ! i)))) [0..<vector_size wv]"
    by (simp add: feature_vector_spec_def)
  from t len rows zero agg show ?thesis
    by blast
qed

text \<open>
  An instance: an embedding of dimension 2 that knows \<^verbatim>\<open>a\<close> and \<^verbatim>\<open>b\<close>, a first note
  with an unknown word between them and a second note of unknown words only.
\<close>

theorem transform_feature_rows_witness:
  "transform \<lparr>attrs = [], embedding = Some \<lparr>vector_size = 2, vocab = [(''a'', [1, 2]), (''b'', [3, 0])]\<rparr>,
              note_level_aggregations = None\<rparr>
     [[''a'', ''zzz'', ''b''], [''zzz'']] False
   = Inr ([[2, 1, 3, 2, 1, 0], [0, 0, 0, 0, 0, 0]],
          \<lparr>attrs = [], embedding = Some \<lparr>vector_size = 2, vocab = [(''a'', [1, 2]), (''b'', [3, 0])]\<rparr>,
           note_level_aggregations = None\<rparr>)"
proof -
  let ?wv = "\<lparr>vector_size = 2, vocab = [(''a'', [1::real, 2]), (''b'', [3, 0])]\<rparr>"
  let ?self = "\<lparr>attrs = [], embedding = Some ?wv, note_level_aggregations = None\<rparr>"
  have e: "embedding ?self = Some ?wv" by simp
  have wf: "wf_vectors ?wv" by (simp add: wf_vectors_def)
  have r0: "resolved ?wv [''a'', ''zzz'', ''b''] = [[1, 2], [3, 0]]"
    by (simp add: resolved_def List.map_filter_simps)
  have r1: "resolved ?wv [''zzz''] = []"
    by (simp add: resolved_def List.map_filter_simps)
  have u: "[0..<2] = [0, Suc 0]" by (simp add: upt_rec)
  from transform_feature_rows [OF e wf, of "[[''a'', ''zzz'', ''b''], [''zzz'']]" False]
  obtain X self' where
    t: "transform ?self [[''a'', ''zzz'', ''b''], [''zzz'']] False = Inr (X, self')"
    and X: "X = map (\<lambda>note. feature_vector_spec (vector_size ?wv) (resolved ?wv note))
                  [[''a'', ''zzz'', ''b''], [''zzz'']]"
    by blast
  have "X = [[2, 1, 3, 2, 1, 0], [0, 0, 0, 0, 0, 0]]"
    unfolding X by (simp add: r0 r1 feature_vector_spec_def u numeral_3_eq_3)
  moreover have "self' = ?self"
    using t by (simp add: transform_def split: sum.splits)
  ultimately show ?thesis using t by simp
qed

subsection \<open>\<^verbatim>\<open>_patient_aggregation\<close>\<close>

lemma mean_rows_width:
  "mean_rows d arrays = Inr X \<Longrightarrow> list_all (\<lambda>row. length row = d) X"
proof (induction arrays arbitrary: X)
  case Nil
  then show ?case by simp
next
  case (Cons a arrays)
  then show ?case
    by (auto simp: assign_value_def assign_row_def
        split: sum.splits np_value.splits if_splits)
qed

text \<open>
  Whenever \<^verbatim>\<open>_patient_aggregation\<close> returns, every row of its matrix has the width of
  the embedding, \<^verbatim>\<open>vector_size\<close>, and not the width \<open>3 * vector_size\<close> of the note
  vectors.
\<close>

lemma patient_aggregation_width:
  assumes "patient_aggregation self note_vectors labs = Inr (X, ls)"
    and "w2v_agg_model self = Some agg" and "embedding agg = Some wv"
  shows "list_all (\<lambda>row. length row = vector_size wv) X"
  using assms
  by (auto simp: patient_aggregation_def Let_def dest: mean_rows_width
      split: option.splits sum.splits prod.splits)

lemma dict_set_new: "k \<notin> fst ` set m \<Longrightarrow> dict_set m k v = m @ [(k, v)]"
  by (induction m) auto

lemma group_unlabelled_distinct:
  assumes "distinct (map fst items)" and "fst ` set items \<inter> fst ` set m = {}"
  shows "group_unlabelled m items = Inr (m @ map (\<lambda>(p, v). (p, Arr1 v)) items)"
  using assms
proof (induction items arbitrary: m)
  case Nil
  then show ?case by simp
next
  case (Cons it items)
  obtain p v where it: "it = (p, v)" by (cases it)
  from Cons.prems it have new: "p \<notin> fst ` set m" by auto
  have "fst ` set items \<inter> fst ` set (m @ [(p, Arr1 v)]) = {}"
    using Cons.prems it by auto
  moreover from Cons.prems have "distinct (map fst items)" by simp
  ultimately have "group_unlabelled (m @ [(p, Arr1 v)]) items
      = Inr ((m @ [(p, Arr1 v)]) @ map (\<lambda>(p, v). (p, Arr1 v)) items)"
    by (rule Cons.IH [rotated])
  with new show ?case
    by (simp add: it map_of_eq_None_iff [THEN iffD2] dict_set_new)
qed

lemma mean_rows_single:
  "mean_rows d (map Arr1 vs) = Inr (map (\<lambda>v. replicate d (sum_list v / real (length v))) vs)"
  by (induction vs) (simp_all add: np_mean_axis0_def assign_value_def)

lemma np_vstack_note_array:
  "note_array w a \<Longrightarrow> length v = w \<Longrightarrow>
   \<exists>a'. np_vstack a v = Inr a' \<and> note_array w a' \<and> stacked a'"
  by (cases a) (auto simp: np_vstack_def note_array_def stacked_def)

lemma dict_set_values: "x \<in> set (dict_set m k v) \<Longrightarrow> x = (k, v) \<or> x \<in> set m"
  by (induction m) (auto split: if_splits)

lemma dict_set_value_in: "(k, v) \<in> set (dict_set m k v)"
  by (induction m) auto

lemma group_unlabelled_stacks:
  assumes "\<forall>(p, a) \<in> set m. note_array w a" and "\<forall>(p, v) \<in> set items. length v = w"
  shows "\<exists>m'. group_unlabelled m items = Inr m' \<and> (\<forall>(p, a) \<in> set m'. note_array w a)
    \<and> (((\<exists>(p, a) \<in> set m. stacked a) \<or> \<not> distinct (map fst items)
         \<or> fst ` set items \<inter> fst ` set m \<noteq> {})
        \<longrightarrow> (\<exists>(p, a) \<in> set m'. stacked a))"
  using assms
proof (induction items arbitrary: m)
  case Nil
  then show ?case by simp
next
  case (Cons it items)
  obtain p v where it: "it = (p, v)" by (cases it)
  from Cons.prems(2) it have v: "length v = w" and rest: "\<forall>(p, v) \<in> set items. length v = w"
    by auto
  show ?case
  proof (cases "map_of m p")
    case None
    then have new: "p \<notin> fst ` set m" by (simp add: map_of_eq_None_iff)
    let ?m1 = "dict_set m p (Arr1 v)"
    have m1: "?m1 = m @ [(p, Arr1 v)]" by (rule dict_set_new [OF new])
    have good: "\<forall>(p, a) \<in> set ?m1. note_array w a"
      using Cons.prems(1) v by (auto simp: m1 note_array_def)
    from Cons.IH [OF good rest] obtain m' where
      g: "group_unlabelled ?m1 items = Inr m'" and g': "\<forall>(p, a) \<in> set m'. note_array w a"
      and s: "((\<exists>(p, a) \<in> set ?m1. stacked a) \<or> \<not> distinct (map fst items)
         \<or> fst ` set items \<inter> fst ` set ?m1 \<noteq> {}) \<longrightarrow> (\<exists>(p, a) \<in> set m'. stacked a)"
      by blast
    have "(\<exists>(p, a) \<in> set ?m1. stacked a) \<or> \<not> distinct (map fst items)
         \<or> fst ` set items \<inter> fst ` set ?m1 \<noteq> {}"
      if "(\<exists>(p, a) \<in> set m. stacked a) \<or> \<not> distinct (map fst (it # items))
         \<or> fst ` set (it # items) \<inter> fst ` set m \<noteq> {}"
      using that new unfolding m1 it by auto
    with g g' s None show ?thesis
      by (auto simp: it)
  next
    case (Some a)
    then have "(p, a) \<in> set m" by (rule map_of_SomeD)
    with Cons.prems(1) have "note_array w a" by auto
    from np_vstack_note_array [OF this v] obtain a' where
      a': "np_vstack a v = Inr a'" "note_array w a'" "stacked a'"
      by blast
    let ?m1 = "dict_set m p a'"
    have good: "\<forall>(p, a) \<in> set ?m1. note_array w a"
      using Cons.prems(1) a'(2) by (auto dest: dict_set_values)
    have "\<exists>(p, a) \<in> set ?m1. stacked a"
      using dict_set_value_in [of p a' m] a'(3) by auto
    with Cons.IH [OF good rest] Some a'(1) show ?thesis
      by (auto simp: it)
  qed
qed

lemma length_np_mean0:
  "list_all (\<lambda>v. length v = length r) rs \<Longrightarrow> length (np_mean0 r rs) = length r"
  by (simp add: np_mean0_def np_sum0_def length_foldl_map2)

lemma mean_rows_stacked:
  assumes "0 < d" and "\<forall>a \<in> set arrays. note_array (3 * d) a" and "\<exists>a \<in> set arrays. stacked a"
  shows "mean_rows d arrays = Inl ValueError"
  using assms(2,3)
proof (induction arrays)
  case Nil
  then show ?case by simp
next
  case (Cons a arrays)
  show ?case
  proof (cases a)
    case (Arr1 v)
    with Cons.prems have "\<exists>a \<in> set arrays. stacked a" by (auto simp: stacked_def)
    with Cons have "mean_rows d arrays = Inl ValueError" by simp
    then show ?thesis by (simp add: Arr1 np_mean_axis0_def assign_value_def)
  next
    case (Arr2 rows)
    with Cons.prems(1) obtain r rs where rows: "rows = r # rs"
      and l: "length r = 3 * d" "list_all (\<lambda>v. length v = length r) rs"
      by (cases rows) (auto simp: note_array_def list_all_iff)
    from l assms(1) have "assign_row d (np_mean0 r rs) = Inl ValueError"
      by (simp add: assign_row_def length_np_mean0)
    then show ?thesis by (simp add: Arr2 rows np_mean_axis0_def assign_value_def)
  qed
qed

text \<open>
  What \<^verbatim>\<open>_patient_aggregation\<close> does on note vectors of the width \<open>3 * vector_size\<close>
  that \<^verbatim>\<open>transform\<close> produces: when no patient has two notes, the row of a patient is
  the mean of the components of its note vector, repeated \<^verbatim>\<open>vector_size\<close> times, in the
  order of the notes; as soon as a patient has two notes, ValueError.
\<close>

lemma patient_aggregation_characterised:
  assumes "0 < vector_size wv"
    and "list_all (\<lambda>v. length v = 3 * vector_size wv) note_vectors"
  shows "patient_aggregation (fitted_predictor p_ids wv) note_vectors (None :: 'l list option) =
    (if distinct (map fst (zip p_ids note_vectors))
     then Inr (map (\<lambda>v. replicate (vector_size wv) (sum_list v / real (length v)))
                 (map snd (zip p_ids note_vectors)), [])
     else Inl ValueError)"
proof (cases "distinct (map fst (zip p_ids note_vectors))")
  case True
  have "map snd (map (\<lambda>(p, v). (p, Arr1 v)) (zip p_ids note_vectors))
      = map Arr1 (map snd (zip p_ids note_vectors))"
    by (induction "zip p_ids note_vectors") auto
  with True group_unlabelled_distinct [of "zip p_ids note_vectors" "[]"] show ?thesis
    by (simp add: patient_aggregation_def fitted_predictor_def predictor_init_def
        embed_aggregate_init_def mean_rows_single del: map_map)
next
  case False
  have items: "\<forall>(p, v) \<in> set (zip p_ids note_vectors). length v = 3 * vector_size wv"
    using assms(2) by (auto simp: list_all_iff dest: set_zip_rightD)
  from group_unlabelled_stacks [of "[]" "3 * vector_size wv" "zip p_ids note_vectors"] items False
  obtain m' where g: "group_unlabelled [] (zip p_ids note_vectors) = Inr m'"
    and good: "\<forall>(p, a) \<in> set m'. note_array (3 * vector_size wv) a"
    and st: "\<exists>(p, a) \<in> set m'. stacked a"
    by auto
  from good st have "mean_rows (vector_size wv) (map snd m') = Inl ValueError"
    by (intro mean_rows_stacked [OF assms(1)]) force+
  with g False show ?thesis
    by (simp add: patient_aggregation_def fitted_predictor_def predictor_init_def
        embed_aggregate_init_def)
qed

text \<open>
  Claim C1 (the code departs from it). With an embedding of dimension 1 the note vectors
  have dimension 3. For a patient with the single note vector \<open>[1, 2, 6]\<close> the claim
  gives the row \<open>[1, 2, 6]\<close>; the code returns the row \<open>[3]\<close>, the mean of the three
  components, of width 1. For a patient with the two note vectors \<open>[1, 2, 3]\<close> and
  \<open>[3, 4, 5]\<close> the claim gives the row \<open>[2, 3, 4]\<close>; the code raises ValueError when it
  stores that mean in a row of width 1.
\<close>

theorem patient_aggregation_departs:
  "patient_aggregation
     (fitted_predictor [7::int] \<lparr>vector_size = 1, vocab = []\<rparr>) [[1, 2, 6]] (None :: int list option)
     = Inr ([[3]], [])
   \<and> patient_aggregation
     (fitted_predictor [7::int, 7] \<lparr>vector_size = 1, vocab = []\<rparr>) [[1, 2, 3], [3, 4, 5]]
       (None :: int list option)
     = Inl ValueError"
  by (simp add: patient_aggregation_def fitted_predictor_def predictor_init_def
      embed_aggregate_init_def np_vstack_def np_mean_axis0_def np_mean0_def np_sum0_def assign_value_def assign_row_def)

subsection \<open>\<^verbatim>\<open>_load_data\<close> and its callers\<close>

lemma py_tuple_many: "py_tuple (x # y # zs) = Inl TypeError"
  by (simp add: py_tuple_def)

lemma map_fst_dict_set:
  "map fst (dict_set m k v) = (if k \<in> set (map fst m) then map fst m else map fst m @ [k])"
  by (induction m) (auto simp: rev_image_eqI)

lemma dict_set_keys: "fst ` set (dict_set m k v) = insert k (fst ` set m)"
proof -
  have "set (map fst (dict_set m k v)) = insert k (set (map fst m))"
    unfolding map_fst_dict_set by auto
  then show ?thesis by simp
qed

lemma fold_dict_set_keys:
  "fst ` set (fold (\<lambda>k m. dict_set m k v) ks m) = fst ` set m \<union> set ks"
  by (induction ks arbitrary: m) (auto simp: dict_set_keys)

lemma set_unique_ids: "set (unique_ids ps) = set ps"
  using fold_dict_set_keys [of "()" ps "[]"] by (simp add: unique_ids_def)

lemma list_index_less: "list_index xs x = Inr i \<Longrightarrow> i < length xs"
proof -
  assume a: "list_index xs x = Inr i"
  then have "x \<in> set xs" and "i = length (takeWhile (\<lambda>y. y \<noteq> x) xs)"
    by (auto simp: list_index_def split: if_splits)
  moreover have "x \<in> set xs \<Longrightarrow> length (takeWhile (\<lambda>y. y \<noteq> x) xs) < length xs"
    by (induction xs) auto
  ultimately show ?thesis by simp
qed

lemma ordered_labels_returns:
  assumes "set ps \<subseteq> set index" and "length input_labels = length index"
  shows "\<exists>ls. ordered_labels index input_labels ps = Inr ls"
  using assms(1)
proof (induction ps)
  case Nil
  then show ?case by simp
next
  case (Cons p ps)
  then obtain ls where ls: "ordered_labels index input_labels ps = Inr ls"
    by auto
  from Cons.prems obtain i where i: "list_index index p = Inr i"
    by (auto simp: list_index_def)
  with list_index_less [OF i] assms(2) ls show ?case
    by simp
qed

lemma gridsearch_labels_loop_returns: "\<exists>ls. gridsearch_labels_loop m ps = Inr ls"
proof (induction ps)
  case Nil
  then show ?case by simp
next
  case (Cons p ps)
  then obtain ls where "gridsearch_labels_loop m ps = Inr ls"
    by auto
  then show ?case
    by (cases "map_of m p") (simp_all add: dict_getitem_def)
qed

text \<open>
  The notes that the loop keeps belong to patients of the label table: a patient with
  no label contributes no identifier and no note.
\<close>

lemma process_chunk_labelled:
  "process_chunk self wt readm_df chunk = (ids, nts) \<Longrightarrow> set ids \<subseteq> fst ` set readm_df"
  by (auto simp: process_chunk_def Let_def)

lemma read_chunks_labelled:
  "read_chunks self wt readm_df ps0 t0 chunks = (ps, t) \<Longrightarrow>
   set ps \<subseteq> set ps0 \<union> fst ` set readm_df"
proof (induction chunks arbitrary: ps0 t0)
  case Nil
  then show ?case by auto
next
  case (Cons c chunks)
  obtain ids nts where pc: "process_chunk self wt readm_df c = (ids, nts)"
    by (cases "process_chunk self wt readm_df c")
  have ids: "set ids \<subseteq> fst ` set readm_df"
    by (rule process_chunk_labelled [OF pc])
  show ?case
  proof (cases "db self")
    case True
    with Cons.prems pc ids show ?thesis by auto
  next
    case False
    with Cons.prems pc
    have "read_chunks self wt readm_df (ps0 @ ids) (t0 @ nts) chunks = (ps, t)"
      by simp
    from Cons.IH [OF this] ids show ?thesis by auto
  qed
qed

lemma load_data_chunked:
  assumes "1 \<le> n"
  shows "load_data self wt corpus_file readm_file (Some n) adapt = Inl TypeError"
proof -
  obtain ps t where rc:
    "read_chunks self wt readm_file [] [] (chunks_of (nat n) corpus_file) = (ps, t)"
    by (cases "read_chunks self wt readm_file [] [] (chunks_of (nat n) corpus_file)")
  let ?readm_df = "filter (\<lambda>(p, l). p \<in> set ps) readm_file"
  from read_chunks_labelled [OF rc] have "set ps \<subseteq> fst ` set readm_file"
    by simp
  then have "set (unique_ids ps) \<subseteq> set (map fst ?readm_df)"
    by (force simp: set_unique_ids)
  then obtain ls where ls:
    "ordered_labels (map fst ?readm_df) (map snd ?readm_df) (unique_ids ps) = Inr ls"
    using ordered_labels_returns [of "unique_ids ps" "map fst ?readm_df" "map snd ?readm_df"]
    by auto
  obtain gl where gl:
    "gridsearch_labels_loop
       (fold (\<lambda>(p_id, label) m. dict_set m p_id label)
          (zip (map fst ?readm_df) (map snd ?readm_df)) []) ps = Inr gl"
    using gridsearch_labels_loop_returns by blast
  from assms rc ls gl show ?thesis
    by (simp add: load_data_def read_csv_corpus_def iterate_corpus_def py_tuple_many Let_def)
qed

lemma load_data_raises:
  "\<exists>e. load_data self wt corpus_file readm_file chunksize adapt = Inl e"
proof (cases chunksize)
  case None
  then show ?thesis
    by (simp add: load_data_def read_csv_corpus_def iterate_corpus_def)
next
  case (Some n)
  show ?thesis
  proof (cases "1 \<le> n")
    case True
    then show ?thesis using Some load_data_chunked by blast
  next
    case False
    then show ?thesis using Some by (simp add: load_data_def read_csv_corpus_def)
  qed
qed

lemma choose_params_raises:
  "\<exists>e. choose_params self wt grid_fit corpus_file readm_file n_jobs mt = Inl e"
proof -
  obtain e where "load_data self wt corpus_file readm_file (train_chunksize self) True = Inl e"
    using load_data_raises by blast
  then show ?thesis
    by (simp add: choose_params_def load_train_data_def)
qed

lemma test_raises:
  "test self wt train_more evaluate corpus_file readm_file = Inl TypeError"
  by (simp add: test_def load_test_data_def load_data_chunked)

text \<open>
  Claim C9, as amended. Whenever the corpus is read in chunks (a chunk size of at least
  1 is given, as every caller in the file does), \<^verbatim>\<open>_load_data\<close> runs to its last
  statement and raises TypeError there, with either value of
  \<^verbatim>\<open>adapt_for_gridsearch\<close>. For every chunk size, \<open>None\<close> included, it raises before it
  returns. So \<^verbatim>\<open>choose_params\<close> raises for every input, \<^verbatim>\<open>test\<close> raises TypeError for
  every input, and \<^verbatim>\<open>train\<close> without arguments, on a predictor whose
  \<^verbatim>\<open>w2v_agg_model\<close> was therefore never set, raises AttributeError.
\<close>

theorem load_data_never_returns:
  "(1 \<le> n \<longrightarrow> load_data self wt corpus_file readm_file (Some n) adapt = Inl TypeError)
   \<and> (\<exists>e. load_data self wt corpus_file readm_file chunksize adapt = Inl e)
   \<and> (\<exists>e. choose_params self wt grid_fit corpus_file readm_file n_jobs mt = Inl e)
   \<and> test self wt train_more evaluate corpus_file readm_file = Inl TypeError
   \<and> (w2v_agg_model self = None \<longrightarrow> train self refine None None = Inl AttributeError)"
  using load_data_chunked [of n self wt corpus_file readm_file adapt]
    load_data_raises [of self wt corpus_file readm_file chunksize adapt]
    choose_params_raises [of self wt grid_fit corpus_file readm_file n_jobs mt]
    test_raises [of self wt train_more evaluate corpus_file readm_file]
  by (simp add: train_def)

theorem load_data_never_returns_witness:
  "load_data example_predictor (\<lambda>s. [s]) example_corpus example_readm (Some 2) True
     = Inl TypeError
   \<and> train example_predictor (\<lambda>X ls. Inr ()) None None = Inl AttributeError"
proof -
  have n: "(1::int) \<le> 2" by simp
  have w: "w2v_agg_model example_predictor = None"
    by (simp add: example_predictor_def predictor_init_def)
  from load_data_never_returns
    [of 2 example_predictor "\<lambda>s. [s]" example_corpus example_readm True None
        "\<lambda>a b c d e f g. Inl RuntimeError" 1 False "\<lambda>wv t. wv" "\<lambda>X ls. Inr ()" "\<lambda>X ls. Inr ()"]
    n w
  show ?thesis by blast
qed

text \<open>
  Claim C9 as it is worded fails for \<^verbatim>\<open>chunksize=None\<close>, the default of
  \<^verbatim>\<open>_load_data\<close>: the loop then runs over the column labels of a data frame and raises
  AttributeError in its first round, before any call of \<^verbatim>\<open>tuple\<close>.
\<close>

theorem load_data_chunksize_None:
  "load_data example_predictor (\<lambda>s. [s]) example_corpus example_readm None False
     = Inl AttributeError
   \<and> load_data example_predictor (\<lambda>s. [s]) example_corpus example_readm None False
     \<noteq> Inl TypeError"
  by (simp add: load_data_def read_csv_corpus_def iterate_corpus_def)

subsection \<open>The seeds of the first grid search\<close>

lemma w2v_kwargs_keys: "fst ` set (w2v_kwargs self) \<subseteq> set arg_names"
  by (auto simp: w2v_kwargs_def)

lemma seed_not_arg_name: "''seed'' \<notin> set arg_names"
  by (simp add: arg_names_def)

text \<open>
  Claim C8 (the code departs from it). \<^verbatim>\<open>choose_params\<close> hands \<^verbatim>\<open>self.seed\<close> to the
  classifier and to the fold splitter, but \<^verbatim>\<open>fit\<close> builds the keyword arguments of
  \<^verbatim>\<open>Word2Vec\<close> from \<^verbatim>\<open>arg_names\<close> alone: whatever \<^verbatim>\<open>set_params\<close> received, no seed
  reaches the embedding. And no run of \<^verbatim>\<open>choose_params\<close> returns a best combination:
  on the example corpus, with the default chunk size and any grid search, it raises
  TypeError in \<^verbatim>\<open>_load_data\<close>.
\<close>

theorem choose_params_no_seed_no_result:
  "''seed'' \<notin> fst ` set (w2v_kwargs (set_params self kwargs))
   \<and> choose_params example_predictor (\<lambda>s. [s]) grid_fit example_corpus example_readm n_jobs mt
       = Inl TypeError"
proof -
  have "''seed'' \<notin> fst ` set (w2v_kwargs (set_params self kwargs))"
    using w2v_kwargs_keys [of "set_params self kwargs"] seed_not_arg_name by blast
  moreover have "train_chunksize example_predictor = Some 100000"
    by (simp add: example_predictor_def predictor_init_def)
  then have "choose_params example_predictor (\<lambda>s. [s]) grid_fit example_corpus example_readm n_jobs mt
      = Inl TypeError"
    by (simp add: choose_params_def load_train_data_def load_data_chunked)
  ultimately show ?thesis by simp
qed

subsection \<open>\<^verbatim>\<open>EncodedDataset\<close>\<close>

lemma overflow_loop_aligned:
  assumes "overflow_loop seq_len overflow patient label ds idxs = Inr ds'" and "aligned ds"
  shows "aligned ds' \<and> set (unit_pairs ds') \<subseteq> insert (patient, label) (set (unit_pairs ds))"
  using assms
proof (induction idxs arbitrary: ds)
  case Nil
  then show ?case by auto
next
  case (Cons i idxs)
  let ?ds1 = "ds\<lparr>patient_ids := patient_ids ds @ [patient], labels := labels ds @ [label]\<rparr>"
  from Cons.prems(1) obtain ids attn_mask where
    u: "overflow_unit seq_len overflow i = Inr (ids, attn_mask)"
    by (auto simp: Let_def split: sum.splits)
  let ?ds2 = "?ds1\<lparr>input_ids := input_ids ?ds1 @ [ids],
                     attn_masks := attn_masks ?ds1 @ [attn_mask]\<rparr>"
  from Cons.prems(1) u
  have r: "overflow_loop seq_len overflow patient label ?ds2 idxs = Inr ds'"
    by (simp add: Let_def)
  have a2: "aligned ?ds2"
    using Cons.prems(2) by (simp add: aligned_def)
  have p2: "unit_pairs ?ds2 = unit_pairs ds @ [(patient, label)]"
    using Cons.prems(2) by (simp add: aligned_def unit_pairs_def)
  from Cons.IH [OF r a2] p2 show ?case by auto
qed

lemma encode_note_aligned:
  assumes "encode_note tokenize seq_len ds row = Inr ds'" and "aligned ds"
  shows "aligned ds'
    \<and> set (unit_pairs ds') \<subseteq> insert (subject_id row, READM row) (set (unit_pairs ds))"
proof -
  from assms(1) obtain ids attn_mask where
    "reshape1 (enc_input_ids (tokenize (row_text row) seq_len)) seq_len = Inr ids"
    "reshape1 (enc_attention_mask (tokenize (row_text row) seq_len)) seq_len = Inr attn_mask"
    by (auto simp: encode_note_def Let_def split: sum.splits)
  note r = this
  let ?ds1 = "\<lparr>input_ids = input_ids ds @ [ids], attn_masks = attn_masks ds @ [attn_mask],
               labels = labels ds @ [READM row],
               patient_ids = patient_ids ds @ [subject_id row]\<rparr>"
  have a1: "aligned ?ds1"
    using assms(2) by (simp add: aligned_def)
  have p1: "unit_pairs ?ds1 = unit_pairs ds @ [(subject_id row, READM row)]"
    using assms(2) by (simp add: aligned_def unit_pairs_def)
  show ?thesis
  proof (cases "enc_overflowing_tokens (tokenize (row_text row) seq_len)")
    case None
    with assms(1) r have "ds' = ?ds1"
      by (simp add: encode_note_def Let_def)
    with a1 p1 show ?thesis by auto
  next
    case (Some overflow)
    with assms(1) r obtain n where
      "overflow_loop seq_len overflow (subject_id row) (READM row) ?ds1
         [0..<(n + seq_len - 1) div seq_len] = Inr ds'"
      by (auto simp: encode_note_def Let_def split: sum.splits if_splits)
    from overflow_loop_aligned [OF this a1] p1 show ?thesis by auto
  qed
qed

lemma encode_rows_aligned:
  assumes "encode_rows tokenize seq_len ds df = Inr ds'" and "aligned ds"
  shows "aligned ds'
    \<and> set (unit_pairs ds') \<subseteq> set (unit_pairs ds) \<union> (\<lambda>r. (subject_id r, READM r)) ` set df"
  using assms
proof (induction df arbitrary: ds)
  case Nil
  then show ?case by auto
next
  case (Cons row df)
  from Cons.prems(1) obtain ds1 where
    n: "encode_note tokenize seq_len ds row = Inr ds1"
    and r: "encode_rows tokenize seq_len ds1 df = Inr ds'"
    by (auto split: sum.splits)
  from encode_note_aligned [OF n Cons.prems(2)]
  have a1: "aligned ds1"
    and p1: "set (unit_pairs ds1) \<subseteq> insert (subject_id row, READM row) (set (unit_pairs ds))"
    by auto
  from Cons.IH [OF r a1] p1 show ?case by auto
qed

lemma list_getitem_nth:
  "0 \<le> idx \<Longrightarrow> idx < int (length xs) \<Longrightarrow> list_getitem xs idx = Inr (xs ! nat idx)"
  by (simp add: list_getitem_def Let_def)

text \<open>
  Claim C10. Whenever the construction of an \<^verbatim>\<open>EncodedDataset\<close> returns, the four lists
  have the same length, \<^verbatim>\<open>__len__\<close> is that length, \<^verbatim>\<open>__getitem__\<close> at an index below
  it returns the components that the four lists hold at that index, and the patient and
  the label of every unit are those of one row of the data frame.
\<close>

theorem encoded_dataset_aligned:
  assumes "encoded_dataset_init tokenize seq_len df = Inr self"
  shows "length (input_ids self) = length (patient_ids self)
    \<and> length (attn_masks self) = length (patient_ids self)
    \<and> length (labels self) = length (patient_ids self)
    \<and> dataset_len self = length (patient_ids self)
    \<and> (\<forall>idx. 0 \<le> idx \<and> idx < int (dataset_len self) \<longrightarrow>
          getitem self idx =
            Inr \<lparr>item_input_ids = input_ids self ! nat idx,
                 item_attn_masks = attn_masks self ! nat idx,
                 item_labels = labels self ! nat idx,
                 item_patient_ids = patient_ids self ! nat idx\<rparr>)
    \<and> set (zip (patient_ids self) (labels self)) \<subseteq> (\<lambda>r. (subject_id r, READM r)) ` set df"
proof -
  let ?empty = "\<lparr>input_ids = [], attn_masks = [], labels = [], patient_ids = []\<rparr>
    :: 'a encoded_dataset"
  have e: "aligned ?empty" and p: "unit_pairs ?empty = []"
    by (simp_all add: aligned_def unit_pairs_def)
  from assms have "encode_rows tokenize seq_len ?empty df = Inr self"
    by (simp add: encoded_dataset_init_def)
  from encode_rows_aligned [OF this e] p
  have a: "aligned self"
    and u: "set (unit_pairs self) \<subseteq> (\<lambda>r. (subject_id r, READM r)) ` set df"
    by auto
  from a have l: "length (input_ids self) = length (patient_ids self)"
    "length (attn_masks self) = length (patient_ids self)"
    "length (labels self) = length (patient_ids self)"
    by (simp_all add: aligned_def)
  have g: "getitem self idx =
      Inr \<lparr>item_input_ids = input_ids self ! nat idx,
           item_attn_masks = attn_masks self ! nat idx,
           item_labels = labels self ! nat idx,
           item_patient_ids = patient_ids self ! nat idx\<rparr>"
    if "0 \<le> idx" and "idx < int (dataset_len self)" for idx
    using that l by (simp add: getitem_def dataset_len_def list_getitem_nth)
  from l g u show ?thesis
    by (simp add: dataset_len_def unit_pairs_def)
qed

text \<open>
  An instance: two notes with a sequence budget of 2; the first has four tokens, so
  that its overflow is one full chunk, the second has one token.
\<close>

theorem encoded_dataset_aligned_witness:
  "\<exists>self. encoded_dataset_init (char_tokenizer BatchTensor) 2
       [\<lparr>subject_id = 7, row_text = ''abcd'', READM = (1::int)\<rparr>,
        \<lparr>subject_id = 8, row_text = ''e'', READM = 0\<rparr>] = Inr self
     \<and> dataset_len self = 3
     \<and> length (input_ids self) = 3 \<and> length (attn_masks self) = 3 \<and> length (labels self) = 3
     \<and> getitem self 1 =
         Inr \<lparr>item_input_ids = Tensor [1, 2] [99, 100], item_attn_masks = Tensor [2] [1, 1],
              item_labels = 1, item_patient_ids = 7\<rparr>"
proof -
  let ?self = "\<lparr>input_ids = [Tensor [2] [97, 98], Tensor [1, 2] [99, 100], Tensor [2] [101, 0]],
     attn_masks = [Tensor [2] [1, 1], Tensor [2] [1, 1], Tensor [2] [1, 0]],
     labels = [1, 1, 0::int], patient_ids = [7, 7, 8]\<rparr>"
  have i: "encoded_dataset_init (char_tokenizer BatchTensor) 2
       [\<lparr>subject_id = 7, row_text = ''abcd'', READM = (1::int)\<rparr>,
        \<lparr>subject_id = 8, row_text = ''e'', READM = 0\<rparr>] = Inr ?self"
    by (simp add: encoded_dataset_init_def encode_note_def char_tokenizer_def reshape1_def
        seq_len_of_def tensor_len_def overflow_unit_def seq_slice_def tensor_slice_def
        shape_at_def torch_zeros_def torch_ones_def Let_def upt_rec numeral_2_eq_2)
  have n: "length (patient_ids ?self) = 3" by simp
  from encoded_dataset_aligned [OF i] n
  have "dataset_len ?self = 3" "length (input_ids ?self) = 3" "length (attn_masks ?self) = 3"
    "length (labels ?self) = 3"
    and g: "\<forall>idx. 0 \<le> idx \<and> idx < int (dataset_len ?self) \<longrightarrow>
          getitem ?self idx =
            Inr \<lparr>item_input_ids = input_ids ?self ! nat idx,
                 item_attn_masks = attn_masks ?self ! nat idx,
                 item_labels = labels ?self ! nat idx,
                 item_patient_ids = patient_ids ?self ! nat idx\<rparr>"
    by simp_all
  moreover from g \<open>dataset_len ?self = 3\<close>
  have "getitem ?self 1 =
      Inr \<lparr>item_input_ids = input_ids ?self ! nat 1, item_attn_masks = attn_masks ?self ! nat 1,
           item_labels = labels ?self ! nat 1, item_patient_ids = patient_ids ?self ! nat 1\<rparr>"
    by simp
  ultimately show ?thesis using i by simp
qed

text \<open>
  The loop over the overflow in general, for a positive sequence budget and the index
  list that \<^verbatim>\<open>encode_note\<close> computes from \<^verbatim>\<open>len(overflow)\<close>: a Python list and a
  tensor of rank 1 fail in the first round; a tensor of shape \<open>(1, n)\<close> has length 1,
  so there is one round, which fails unless \<open>n\<close> is the sequence budget and then yields
  one unit with a mask of ones.
\<close>

lemma ceil_div_pos: "0 < n \<Longrightarrow> 0 < L \<Longrightarrow> [0..<(n + L - 1) div L] = 0 # [1..<(n + L - 1) div L]"
proof -
  assume "0 < n" "0 < L"
  then have "L \<le> n + L - 1" by simp
  then have "0 < (n + L - 1) div L"
    using \<open>0 < L\<close> by (simp add: div_greater_zero_iff)
  then show ?thesis by (simp add: upt_rec)
qed

lemma overflow_loop_list:
  assumes "xs \<noteq> []" and "0 < seq_len"
  shows "overflow_loop seq_len (PyList xs) patient label ds
           [0..<(length xs + seq_len - 1) div seq_len] = Inl AttributeError"
proof -
  have e: "[0..<(length xs + seq_len - 1) div seq_len]
      = 0 # [1..<(length xs + seq_len - 1) div seq_len]"
    using assms by (intro ceil_div_pos) auto
  show ?thesis
    unfolding e by (simp add: overflow_unit_def seq_slice_def Let_def)
qed

lemma overflow_loop_flat:
  assumes "0 < n" and "0 < seq_len"
  shows "overflow_loop seq_len (PyTensor (Tensor [n] xs)) patient label ds
           [0..<(n + seq_len - 1) div seq_len] = Inl IndexError"
proof -
  have e: "[0..<(n + seq_len - 1) div seq_len] = 0 # [1..<(n + seq_len - 1) div seq_len]"
    using assms by (intro ceil_div_pos) auto
  show ?thesis
    unfolding e
    by (simp add: overflow_unit_def seq_slice_def tensor_slice_def shape_at_def Let_def)
qed

lemma overflow_loop_batch:
  assumes "n \<noteq> seq_len" and "0 < seq_len"
  shows "overflow_loop seq_len (PyTensor (Tensor [1, n] xs)) patient label ds
           [0..<(1 + seq_len - 1) div seq_len] = Inl RuntimeError"
proof -
  have "min seq_len 1 = 1" using assms(2) by simp
  moreover have "int seq_len - int n < 0 \<or> 0 < seq_len - n" using assms(1) by auto
  ultimately show ?thesis
    using assms
    by (auto simp: upt_rec overflow_unit_def seq_slice_def tensor_slice_def shape_at_def
        torch_zeros_def torch_cat_def Let_def)
qed

lemma overflow_loop_batch_exact:
  assumes "0 < seq_len" and "length xs = seq_len"
  shows "overflow_loop seq_len (PyTensor (Tensor [1, seq_len] xs)) patient label ds
           [0..<(1 + seq_len - 1) div seq_len]
         = Inr (ds\<lparr>patient_ids := patient_ids ds @ [patient], labels := labels ds @ [label],
                   input_ids := input_ids ds @ [Tensor [1, seq_len] xs],
                   attn_masks := attn_masks ds @ [Tensor [seq_len] (replicate seq_len 1)]\<rparr>)"
proof -
  have "min seq_len 1 = 1" using assms(1) by simp
  then show ?thesis
    using assms
    by (simp add: upt_rec overflow_unit_def seq_slice_def tensor_slice_def shape_at_def
        torch_ones_def Let_def)
qed

text \<open>
  Claim C3 (the code departs from it). A note of five tokens with a sequence budget of
  2 leaves an overflow of three tokens; the claim gives two overflow units, \<open>[c, d]\<close>
  with the mask \<open>[1, 1]\<close> and \<open>[e, 0]\<close> with the mask \<open>[1, 0]\<close>. The code counts the chunks
  with \<^verbatim>\<open>len(overflow)\<close> and slices along the first dimension, but reads the length of
  a chunk as \<^verbatim>\<open>overflow_seq.shape[1]\<close>. With the overflow as a tensor of shape
  \<open>(1, 3)\<close> there is one chunk, the whole overflow, and padding it by \<open>2 - 3\<close> zeros
  raises RuntimeError; as a tensor of shape \<open>(3,)\<close> the first chunk has no second
  dimension, IndexError; as a Python list the chunk has no attribute \<^verbatim>\<open>shape\<close>,
  AttributeError. In no form is a dataset built.
\<close>

theorem overflow_units_departs:
  "encoded_dataset_init (char_tokenizer BatchTensor) 2
     [\<lparr>subject_id = 7, row_text = ''abcde'', READM = (1::int)\<rparr>] = Inl RuntimeError
   \<and> encoded_dataset_init (char_tokenizer FlatTensor) 2
     [\<lparr>subject_id = 7, row_text = ''abcde'', READM = (1::int)\<rparr>] = Inl IndexError
   \<and> encoded_dataset_init (char_tokenizer PlainList) 2
     [\<lparr>subject_id = 7, row_text = ''abcde'', READM = (1::int)\<rparr>] = Inl AttributeError"
  by (simp add: encoded_dataset_init_def encode_note_def char_tokenizer_def reshape1_def
      seq_len_of_def tensor_len_def overflow_unit_def seq_slice_def tensor_slice_def
      shape_at_def torch_zeros_def Let_def upt_rec)

subsection \<open>Freezing the embedding parameters\<close>

lemma freeze_names: "map param_name (freeze ps) = map param_name ps"
  by (induction ps) (simp_all add: freeze_def)

lemma freeze_data: "map param_data (freeze ps) = map param_data ps"
  by (induction ps) (simp_all add: freeze_def)

text \<open>
  What the loop does: a parameter whose name starts with \<^verbatim>\<open>embeddings\<close> is frozen, and
  every other parameter is left as it was.
\<close>

lemma freeze_nth:
  "i < length ps \<Longrightarrow>
   requires_grad (freeze ps ! i) =
     (if startswith (param_name (ps ! i)) ''embeddings'' then False else requires_grad (ps ! i))"
  by (simp add: freeze_def)

text \<open>
  The flag does not change the forward pass: the two predictors that \<^verbatim>\<open>__init__\<close>
  builds from the same arguments but for \<^verbatim>\<open>update_all_params\<close> compute the same
  logits.
\<close>

lemma forward_flag_independent:
  assumes "bert_predictor_init ok from_pretrained (kwargs\<lparr>kw_update_all_params := Some True\<rparr>) = Inr self1"
    and "bert_predictor_init ok from_pretrained (kwargs\<lparr>kw_update_all_params := Some False\<rparr>) = Inr self2"
  shows "forward net self1 ids masks = forward net self2 ids masks"
proof -
  from assms obtain name where n: "kw_bert_model kwargs = Some name" and ok: ok
    by (auto simp: bert_predictor_init_def split: if_splits option.splits)
  from assms(1) n ok have "model self1 = from_pretrained name"
    by (auto simp: bert_predictor_init_def default_def Let_def)
  moreover from assms(2) n ok have "model self2 = freeze (from_pretrained name)"
    by (auto simp: bert_predictor_init_def default_def Let_def)
  ultimately show ?thesis
    by (simp add: forward_def freeze_data)
qed

text \<open>
  Claim C7 (the code departs from it). The predictor is built with
  \<^verbatim>\<open>update_all_params\<close> off (its default) from a network whose parameters carry the
  names of \<^verbatim>\<open>BertForSequenceClassification\<close>. The claim gives frozen embedding
  parameters; the loop tests \<^verbatim>\<open>name.startswith('embeddings')\<close>, the names start with
  \<^verbatim>\<open>bert.embeddings\<close>, and every parameter, the two of the embedding layer included,
  still has \<^verbatim>\<open>requires_grad = True\<close>.
\<close>

theorem embeddings_not_frozen:
  "\<exists>self. bert_predictor_init True (\<lambda>name. example_named_parameters) example_kwargs = Inr self
     \<and> update_all_params self = False
     \<and> map requires_grad (model self) = [True, True, True, True]"
  by (simp add: bert_predictor_init_def example_kwargs_def example_named_parameters_def
      default_def freeze_def startswith_def)

subsection \<open>Patients without a label\<close>

text \<open>
  The left merge keeps every row of the text table; a patient without a label keeps
  its notes, with a missing label.
\<close>

lemma merge_left_keeps_rows: "r \<in> set text_df \<Longrightarrow> \<exists>l. (r, l) \<in> set (merge_left text_df readm)"
proof -
  assume r: "r \<in> set text_df"
  show ?thesis
  proof (cases "filter (\<lambda>(p, l). p = txt_subject_id r) readm")
    case Nil
    with r have "(r, None) \<in> set (merge_left text_df readm)"
      by (force simp: merge_left_def)
    then show ?thesis by blast
  next
    case (Cons m ms)
    obtain p l where m: "m = (p, l)" by (cases m)
    with r Cons have "(r, Some l) \<in> set (merge_left text_df readm)"
      by (force simp: merge_left_def)
    then show ?thesis by blast
  qed
qed

lemma merge_left_unlabelled:
  assumes "r \<in> set text_df" and "txt_subject_id r \<notin> fst ` set readm"
  shows "(r, None) \<in> set (merge_left text_df readm)"
proof -
  from assms(2) have "filter (\<lambda>(p, l). p = txt_subject_id r) readm = []"
    by (force simp: filter_empty_conv)
  with assms(1) show ?thesis
    by (force simp: merge_left_def)
qed

text \<open>
  Claim C6 (the code departs from it). The text table has a note of the patient 1 and
  a note of the patient 2, the label table a label for the patient 1 only. The claim
  has the note of the patient 2 dropped in both pipelines. In the BERT pipeline the
  left merge keeps it, with a missing label, and \<^verbatim>\<open>setup('test')\<close> then raises
  TypeError in \<^verbatim>\<open>_make_sample_weights\<close>; no table without the patient 2 is built.
  (The word2vec pipeline does filter such notes, lemma \<open>read_chunks_labelled\<close>.)
\<close>

theorem unlabelled_patient_kept:
  "map (\<lambda>(r, label). (txt_subject_id r, label)) (merge_left example_text_df example_readm)
     = [(1, Some 1), (2, None)]
   \<and> setup_stage example_bert_predictor sampler ''test'' train_files
        (example_text_df, example_readm) = Inl TypeError"
  by (simp add: merge_left_def example_text_df_def example_readm_def setup_stage_def
      dataframe_setup_def example_bert_predictor_def make_sample_weights_def)

subsection \<open>\<^verbatim>\<open>validation_epoch_end\<close> with one class\<close>

lemma sum_list_const: "(\<And>x. x \<in> set xs \<Longrightarrow> x = c) \<Longrightarrow> sum_list xs = real (length xs) * (c::real)"
  by (induction xs) (auto simp: algebra_simps)

text \<open>
  Whenever the three concatenations succeed and the labels of the epoch are all ones or
  all zeros, the method raises and returns nothing.
\<close>

lemma validation_epoch_end_one_class:
  assumes "cat_key ''loss'' outputs = Inr loss"
    and "cat_key ''predictions'' outputs = Inr predictions"
    and "cat_key ''labels'' outputs = Inr (Tensor [n] ls)"
    and "0 < n" and "length ls = n"
    and "(\<forall>l \<in> set ls. l = 1) \<or> (\<forall>l \<in> set ls. l = 0)"
  shows "validation_epoch_end self metrics outputs = Inl RuntimeWarning"
proof -
  from assms(6) have "sum_list ls = real (length ls) \<or> sum_list ls = 0"
    using sum_list_const [of ls 1] sum_list_const [of ls 0] by auto
  with assms(1-5) show ?thesis
    by (auto simp: validation_epoch_end_def sum_item_def tensor_len_def)
qed

text \<open>
  Claim C5 (the code departs from it). A validation epoch of one batch with two units,
  both with the label 1. The claim has the epoch's metrics skipped and the run going
  on; the method executes \<^verbatim>\<open>raise RuntimeWarning(...)\<close>, so an exception leaves it, for
  every predictor and every list of metrics, and the file has no handler for it.
\<close>

theorem validation_epoch_end_raises:
  "validation_epoch_end self metrics
     [[(''loss'', Tensor [2] [3 / 10, 1 / 10]), (''predictions'', Tensor [2] [1, 0]),
       (''labels'', Tensor [2] [1, 1])]] = Inl RuntimeWarning"
  by (simp add: validation_epoch_end_def cat_key_def dict_getitem_def sum_item_def
      tensor_len_def)

subsection \<open>\<^verbatim>\<open>_aggreg_subseq_logits\<close>\<close>

text \<open>
  The blend itself is as the specification gives it, and for a single score with the
  default scale factor it is that score.
\<close>

lemma scale_formula:
  assumes "scale_factor \<noteq> 0" and "v \<noteq> []"
  shows "scale scale_factor v =
    Inr ((Max (set v) + (sum_list v / real (length v)) * (real (length v) / scale_factor))
         / (1 + real (length v) / scale_factor))"
proof -
  from assms(2) obtain x xs where v: "v = x # xs" by (cases v) auto
  have "foldl max x xs = Max (set v)"
    by (simp add: v foldl_max_Max)
  with assms(1) v show ?thesis
    by (simp add: scale_def Let_def)
qed

lemma scale_single: "scale 2 [x] = Inr x"
  by (simp add: scale_def)

lemma aggreg_subseq_logits_raises: "\<exists>e. aggreg_subseq_logits self body output_list = Inl e"
  by (auto simp: aggreg_subseq_logits_def py_list_shape_def split: sum.splits)

text \<open>
  Claim C2 (the code departs from it). \<^verbatim>\<open>test_epoch_end\<close> calls
  \<^verbatim>\<open>_aggreg_subseq_logits\<close> with the outputs of \<^verbatim>\<open>test_step\<close>. The claim gives a blended
  score for every patient; the method returns none. The outputs have no entry
  \<^verbatim>\<open>patient_ids\<close>, KeyError; with that entry added, \<^verbatim>\<open>logits\<close> is a Python list and
  \<^verbatim>\<open>logits.shape\<close> raises AttributeError; and so for every list of outputs.
\<close>

theorem aggreg_subseq_logits_departs:
  "aggreg_subseq_logits self body [example_test_output] = Inl KeyError
   \<and> aggreg_subseq_logits self body [example_test_output_ids] = Inl AttributeError
   \<and> (\<exists>e. aggreg_subseq_logits self body output_list = Inl e)"
  using aggreg_subseq_logits_raises [of self body output_list]
  by (simp add: aggreg_subseq_logits_def example_test_output_def example_test_output_ids_def
      dict_getitem_def py_list_shape_def)

end
